theory Spec2Isabelle
  imports Complex_Main
begin

section \<open>Python strings\<close>

text \<open>
  The report generator of \<^verbatim>\<open>app.py\<close> works on Python \<^verbatim>\<open>str\<close> values, which are
  sequences of Unicode code points (the Hindi reports are written in Devanagari). A
  string is therefore modelled as a list of code points; \<open>ascii\<close> embeds an ASCII
  literal.
\<close>

type_synonym ustr = "nat list"

definition ascii :: "string \<Rightarrow> ustr" where
  "ascii s = map of_char s"

text \<open>\<^verbatim>\<open>str.isspace\<close> of one code point: the characters \<^verbatim>\<open>str.strip()\<close> removes.\<close>

definition py_isspace :: "nat \<Rightarrow> bool" where
  "py_isspace c = (c \<in> set [9, 10, 11, 12, 13, 28, 29, 30, 31, 32, 133, 160, 5760,
     8192, 8193, 8194, 8195, 8196, 8197, 8198, 8199, 8200, 8201, 8202,
     8232, 8233, 8239, 8287, 12288])"

definition py_strip :: "ustr \<Rightarrow> ustr" where
  "py_strip s = rev (dropWhile py_isspace (rev (dropWhile py_isspace s)))"

definition py_startswith :: "ustr \<Rightarrow> ustr \<Rightarrow> bool" where
  "py_startswith s p = (take (length p) s = p)"

definition py_endswith :: "ustr \<Rightarrow> ustr \<Rightarrow> bool" where
  "py_endswith s p = (length p \<le> length s \<and> drop (length s - length p) s = p)"

text \<open>\<^verbatim>\<open>s.split(sep)\<close> for a separator of one character: never the empty list.\<close>

fun py_split :: "nat \<Rightarrow> ustr \<Rightarrow> ustr list" where
  "py_split sep [] = [[]]"
| "py_split sep (c # cs) =
     (if c = sep then [] # py_split sep cs
      else (c # hd (py_split sep cs)) # tl (py_split sep cs))"

text \<open>\<^verbatim>\<open>s.replace(ch, '')\<close> for one character, \<^verbatim>\<open>sep.join(parts)\<close> and \<^verbatim>\<open>w in s\<close>.\<close>

definition py_remove :: "nat \<Rightarrow> ustr \<Rightarrow> ustr" where
  "py_remove ch s = filter (\<lambda>c. c \<noteq> ch) s"

fun py_join :: "ustr \<Rightarrow> ustr list \<Rightarrow> ustr" where
  "py_join sep [] = []"
| "py_join sep [x] = x"
| "py_join sep (x # y # ys) = x @ sep @ py_join sep (y # ys)"

fun py_contains :: "ustr \<Rightarrow> ustr \<Rightarrow> bool" where
  "py_contains w [] = (w = [])"
| "py_contains w (c # cs) = (py_startswith (c # cs) w \<or> py_contains w cs)"

section \<open>The regular expressions\<close>

text \<open>
  \<^verbatim>\<open>\d\<close> in a \<^verbatim>\<open>str\<close> pattern is any Unicode decimal digit (category Nd). The
  digits come in runs of ten (fifty for the mathematical digits); the table lists where
  each run of ten starts (Unicode 14, as CPython 3.11 ships it).
\<close>

definition digit_runs :: "nat list" where
  "digit_runs = [48, 1632, 1776, 1984, 2406, 2534, 2662, 2790, 2918, 3046, 3174, 3302,
     3430, 3558, 3664, 3792, 3872, 4160, 4240, 6112, 6160, 6470, 6608, 6784, 6800, 6992,
     7088, 7232, 7248, 42528, 43216, 43264, 43472, 43504, 43600, 44016, 65296, 66720,
     68912, 69734, 69872, 69942, 70096, 70384, 70736, 70864, 71248, 71360, 71472, 71904,
     72016, 72784, 73040, 73120, 92768, 92864, 93008, 120782, 120792, 120802, 120812,
     120822, 123200, 123632, 125264, 130032]"

definition py_digit :: "nat \<Rightarrow> bool" where
  "py_digit c = list_ex (\<lambda>a. a \<le> c \<and> c < a + 10) digit_runs"

text \<open>\<^verbatim>\<open>re.match(r'^\d+\. ', line)\<close>: one or more digits, a period, one space.\<close>

definition match_numbered :: "ustr \<Rightarrow> bool" where
  "match_numbered line =
     (takeWhile py_digit line \<noteq> [] \<and> py_startswith (dropWhile py_digit line) (ascii ''. ''))"

text \<open>\<^verbatim>\<open>re.sub(r'^\d+\. ', '', line)\<close>: the matched prefix is cut, once, at the start.\<close>

definition sub_numbered :: "ustr \<Rightarrow> ustr" where
  "sub_numbered line =
     (if match_numbered line then drop 2 (dropWhile py_digit line) else line)"

text \<open>
  \<^verbatim>\<open>re.sub(r'\*\*(.*?)\*\*', r'<b>\1</b>', s)\<close>. After an opening \<^verbatim>\<open>**\<close> the lazy
  group takes the shortest run of characters other than newline that is followed by
  \<^verbatim>\<open>**\<close>; \<open>find_bold_close\<close> returns that run and the text after the closing marker.
  Where no match starts, the character is copied and the scan moves on by one.
\<close>

fun find_bold_close :: "ustr \<Rightarrow> (ustr \<times> ustr) option" where
  "find_bold_close [] = None"
| "find_bold_close (c # cs) =
     (if c = 42 \<and> take 1 cs = [42] then Some ([], drop 1 cs)
      else if c = 10 then None
      else (case find_bold_close cs of
              None \<Rightarrow> None
            | Some (g, r) \<Rightarrow> Some (c # g, r)))"

lemma find_bold_close_shorter:
  "find_bold_close cs = Some (g, r) \<Longrightarrow> length r < length cs"
  by (induction cs arbitrary: g r) (auto split: if_splits option.splits)

function sub_bold :: "ustr \<Rightarrow> ustr" where
  "sub_bold [] = []"
| "sub_bold (c # cs) =
     (if c = 42 \<and> take 1 cs = [42] then
        (case find_bold_close (drop 1 cs) of
           Some (g, r) \<Rightarrow> ascii ''<b>'' @ g @ ascii ''</b>'' @ sub_bold r
         | None \<Rightarrow> c # sub_bold cs)
      else c # sub_bold cs)"
  by pat_completeness auto
termination
  apply (relation "measure length")
    apply (auto dest!: find_bold_close_shorter)
  done

text \<open>\<^verbatim>\<open>re.sub(r'\*(.*?)\*', r'<i>\1</i>', s)\<close>, in the same way.\<close>

fun find_italic_close :: "ustr \<Rightarrow> (ustr \<times> ustr) option" where
  "find_italic_close [] = None"
| "find_italic_close (c # cs) =
     (if c = 42 then Some ([], cs)
      else if c = 10 then None
      else (case find_italic_close cs of
              None \<Rightarrow> None
            | Some (g, r) \<Rightarrow> Some (c # g, r)))"

lemma find_italic_close_shorter:
  "find_italic_close cs = Some (g, r) \<Longrightarrow> length r < Suc (length cs)"
  by (induction cs arbitrary: g r) (auto split: if_splits option.splits)

function sub_italic :: "ustr \<Rightarrow> ustr" where
  "sub_italic [] = []"
| "sub_italic (c # cs) =
     (if c = 42 then
        (case find_italic_close cs of
           Some (g, r) \<Rightarrow> ascii ''<i>'' @ g @ ascii ''</i>'' @ sub_italic r
         | None \<Rightarrow> c # sub_italic cs)
      else c # sub_italic cs)"
  by pat_completeness auto
termination
  apply (relation "measure length")
    apply (auto dest!: find_italic_close_shorter)
  done

section \<open>Flowables, styles and the layout library\<close>

text \<open>
  A \<^verbatim>\<open>ParagraphStyle\<close> built by the program is kept with its name, font and size (the
  colours and spacings play no part in what follows); \<open>SampleStyle\<close> is an entry of the
  library's sample style sheet, taken by name (\<^verbatim>\<open>styles['Heading2']\<close>).
\<close>

datatype pstyle = Style string string nat | SampleStyle string

datatype para = Paragraph (ptext: ustr) (pstyle: pstyle) (bulletText: "ustr option")

text \<open>
  \<open>Spacer w h\<close>: width in points, height in inches. \<open>Table rows widths\<close>: rows of
  cell paragraphs, and the column widths as fractions of \<^verbatim>\<open>doc.width\<close>.
\<close>

datatype flowable = Para para | Spacer nat rat | Table "para list list" "rat list"

datatype error = ValueError ustr | KeyError ustr | AttributeError ustr
  | ZeroDivisionError ustr | LibError ustr

fun message :: "error \<Rightarrow> ustr" where
  "message (ValueError m) = m"
| "message (KeyError m) = m"
| "message (AttributeError m) = m"
| "message (ZeroDivisionError m) = m"
| "message (LibError m) = m"

text \<open>
  The values of a JSON request body, as Python holds them after parsing: an object is
  given by its pairs (distinct keys), a float by the rational it denotes.
\<close>

datatype json = JNull | JBool bool | JInt int | JFloat rat | JStr ustr | JArr "json list"
  | JObj "(ustr \<times> json) list"

text \<open>
  What ReportLab and the Python runtime do is not in the repository; the program's
  behaviour is stated for any such behaviour, given as a record:
  \<^item> \<open>paragraph_raises t\<close>: the exception \<^verbatim>\<open>Paragraph(t, ...)\<close> raises on the markup
    \<open>t\<close>, if it does (its parser rejects ill-formed markup);
  \<^item> \<open>paragraph_text t\<close>: the \<^verbatim>\<open>.text\<close> attribute of a paragraph made from \<open>t\<close>;
  \<^item> \<open>table_raises rows widths\<close>: the exception \<^verbatim>\<open>Table(...)\<close> or \<^verbatim>\<open>setStyle\<close> raises;
  \<^item> \<open>getFont f\<close>: the exception \<^verbatim>\<open>pdfmetrics.getFont(f)\<close> raises;
  \<^item> \<open>doc_build fs\<close>: the bytes \<^verbatim>\<open>doc.build(fs)\<close> writes to the buffer, or its
    exception;
  \<^item> \<open>str_of f\<close>: \<^verbatim>\<open>str(f)\<close> of a flowable;
  \<^item> \<open>format_exc e\<close>: \<^verbatim>\<open>traceback.format_exc()\<close> while \<open>e\<close> is handled;
  \<^item> \<open>py_str v\<close>: \<^verbatim>\<open>str(v)\<close> of a request value that is not a string.
\<close>

record lib =
  paragraph_raises :: "ustr \<Rightarrow> error option"
  paragraph_text :: "ustr \<Rightarrow> ustr"
  table_raises :: "para list list \<Rightarrow> rat list \<Rightarrow> error option"
  getFont :: "string \<Rightarrow> error option"
  doc_build :: "flowable list \<Rightarrow> error + string"
  str_of :: "flowable \<Rightarrow> ustr"
  format_exc :: "error \<Rightarrow> ustr"
  py_str :: "json \<Rightarrow> ustr"

text \<open>\<^verbatim>\<open>Paragraph(text, style, bulletText=...)\<close>, which may raise.\<close>

definition new_Paragraph :: "lib \<Rightarrow> ustr \<Rightarrow> pstyle \<Rightarrow> ustr option \<Rightarrow> error + para" where
  "new_Paragraph L t sty b =
     (case paragraph_raises L t of
        Some e \<Rightarrow> Inl e
      | None \<Rightarrow> Inr (Paragraph t sty b))"

text \<open>\<^verbatim>\<open>cell.text\<close>\<close>

definition text_attr :: "lib \<Rightarrow> para \<Rightarrow> ustr" where
  "text_attr L p = paragraph_text L (ptext p)"

text \<open>A comprehension \<^verbatim>\<open>[Paragraph(t, style) for t in ts]\<close>: the first failure ends it.\<close>

fun paragraphs :: "lib \<Rightarrow> pstyle \<Rightarrow> ustr list \<Rightarrow> error + para list" where
  "paragraphs L sty [] = Inr []"
| "paragraphs L sty (t # ts) =
     (case new_Paragraph L t sty None of
        Inl e \<Rightarrow> Inl e
      | Inr p \<Rightarrow>
          (case paragraphs L sty ts of
             Inl e \<Rightarrow> Inl e
           | Inr ps \<Rightarrow> Inr (p # ps)))"

text \<open>The value an f-string interpolates, and Python's truth value of a request value.\<close>

definition fstr :: "lib \<Rightarrow> json \<Rightarrow> ustr" where
  "fstr L v = (case v of JStr s \<Rightarrow> s | _ \<Rightarrow> py_str L v)"

fun truthy :: "json \<Rightarrow> bool" where
  "truthy JNull = False"
| "truthy (JBool b) = b"
| "truthy (JInt n) = (n \<noteq> 0)"
| "truthy (JFloat x) = (x \<noteq> 0)"
| "truthy (JStr s) = (s \<noteq> [])"
| "truthy (JArr xs) = (xs \<noteq> [])"
| "truthy (JObj kvs) = (kvs \<noteq> [])"

text \<open>\<^verbatim>\<open>isinstance(v, str)\<close>\<close>

fun is_str :: "json \<Rightarrow> bool" where
  "is_str (JStr s) = True"
| "is_str v = False"

section \<open>The styles of \<^verbatim>\<open>create_report_pdf\<close>\<close>

definition CustomH1 :: "string \<Rightarrow> pstyle" where
  "CustomH1 base_font_name = Style ''CustomH1'' base_font_name 18"

definition CustomH2 :: "string \<Rightarrow> pstyle" where
  "CustomH2 base_font_name = Style ''CustomH2'' base_font_name 14"

definition CustomH3 :: "string \<Rightarrow> pstyle" where
  "CustomH3 base_font_name = Style ''CustomH3'' base_font_name 12"

definition CustomBody :: "string \<Rightarrow> pstyle" where
  "CustomBody base_font_name = Style ''CustomBody'' base_font_name 10"

definition CustomBullet :: "string \<Rightarrow> pstyle" where
  "CustomBullet base_font_name = Style ''CustomBullet'' base_font_name 10"

definition CustomNumber :: "string \<Rightarrow> pstyle" where
  "CustomNumber base_font_name = Style ''CustomNumber'' base_font_name 10"

definition CustomDisclaimer :: "string \<Rightarrow> pstyle" where
  "CustomDisclaimer base_font_name = Style ''CustomDisclaimer'' base_font_name 9"

definition TableBody :: "string \<Rightarrow> pstyle" where
  "TableBody base_font_name = Style ''TableBody'' base_font_name 9"

definition TableHeader :: "string \<Rightarrow> pstyle" where
  "TableHeader base_font_name = Style ''TableHeader'' base_font_name 10"

definition ErrorNormal :: pstyle where
  "ErrorNormal = Style ''ErrorNormal'' ''Helvetica'' 10"

definition ErrorTitle :: pstyle where
  "ErrorTitle = Style ''ErrorTitle'' ''Helvetica-Bold'' 14"

definition ErrorCode :: pstyle where
  "ErrorCode = Style ''ErrorCode'' ''Courier'' 9"

section \<open>Parsing the markdown lines\<close>

text \<open>
  The loop of \<^verbatim>\<open>create_report_pdf\<close> keeps three variables: the list \<^verbatim>\<open>flowables\<close>,
  the flag \<^verbatim>\<open>in_table\<close> and the buffer \<^verbatim>\<open>current_table_data\<close>.
\<close>

record pstate =
  flowables :: "flowable list"
  in_table :: bool
  current_table_data :: "para list list"

text \<open>\<^verbatim>\<open>line.startswith('|') and line.endswith('|')\<close>\<close>

definition is_table_line :: "ustr \<Rightarrow> bool" where
  "is_table_line line = (py_startswith line (ascii ''|'') \<and> py_endswith line (ascii ''|''))"

text \<open>\<^verbatim>\<open>[cell.strip() for cell in line.split('|')[1:-1]]\<close>\<close>

definition row_cells :: "ustr \<Rightarrow> ustr list" where
  "row_cells line = map py_strip (butlast (tl (py_split 124 line)))"

text \<open>
  \<^verbatim>\<open>all(c.strip().replace('-', '').replace(':', '').replace(' ', '') == '' for c in cells)\<close>
\<close>

definition is_separator :: "ustr list \<Rightarrow> bool" where
  "is_separator cells =
     list_all (\<lambda>c. py_remove 32 (py_remove 58 (py_remove 45 (py_strip c))) = []) cells"

text \<open>
  The \<^verbatim>\<open>try\<close> block that closes a table whose buffer \<open>rows\<close> is not empty: the column
  widths, the header row made bold, the \<^verbatim>\<open>Table\<close>. It gives the flowables to append.
\<close>

definition col_widths :: "nat \<Rightarrow> error + rat list" where
  "col_widths num_cols =
     (if num_cols = 2 then Inr [35 / 100, 65 / 100]
      else if num_cols = 0 then Inl (ZeroDivisionError (ascii ''float division by zero''))
      else Inr (replicate num_cols (1 / of_nat num_cols)))"

definition table_block :: "lib \<Rightarrow> string \<Rightarrow> para list list \<Rightarrow> error + flowable list" where
  "table_block L base_font_name rows =
     (let header_data = hd rows;
          num_cols = length header_data
      in case col_widths num_cols of
           Inl e \<Rightarrow> Inl e
         | Inr widths \<Rightarrow>
             (case paragraphs L (TableHeader base_font_name)
                     (map (\<lambda>cell. ascii ''<b>'' @ text_attr L cell @ ascii ''</b>'') header_data) of
                Inl e \<Rightarrow> Inl e
              | Inr styled_header \<Rightarrow>
                  (let table_data = styled_header # tl rows
                   in case table_raises L table_data widths of
                        Some e \<Rightarrow> Inl e
                      | None \<Rightarrow> Inr [Table table_data widths, Spacer 1 (1 / 10)])))"

text \<open>
  The \<^verbatim>\<open>except\<close> branch: every buffered row becomes a body paragraph, its cells
  joined by \<^verbatim>\<open>" | "\<close>. A paragraph that fails here fails the whole function.
\<close>

fun rows_as_text :: "lib \<Rightarrow> string \<Rightarrow> para list list \<Rightarrow> error + flowable list" where
  "rows_as_text L base_font_name [] = Inr []"
| "rows_as_text L base_font_name (row # rows) =
     (case new_Paragraph L (py_join (ascii '' | '') (map (text_attr L) row))
             (CustomBody base_font_name) None of
        Inl e \<Rightarrow> Inl e
      | Inr p \<Rightarrow>
          (case rows_as_text L base_font_name rows of
             Inl e \<Rightarrow> Inl e
           | Inr ps \<Rightarrow> Inr (Para p # ps)))"

text \<open>The branch \<^verbatim>\<open>elif in_table and not (...)\<close>: what it appends to \<^verbatim>\<open>flowables\<close>.\<close>

definition end_of_table :: "lib \<Rightarrow> string \<Rightarrow> para list list \<Rightarrow> error + flowable list" where
  "end_of_table L base_font_name rows =
     (if rows = [] then Inr []
      else (case table_block L base_font_name rows of
              Inr fs \<Rightarrow> Inr fs
            | Inl table_error \<Rightarrow> rows_as_text L base_font_name rows))"

text \<open>\<^verbatim>\<open>flowables.append(Paragraph(text, style, bulletText=...))\<close>\<close>

definition append_paragraph ::
  "lib \<Rightarrow> pstate \<Rightarrow> ustr \<Rightarrow> pstyle \<Rightarrow> ustr option \<Rightarrow> error + pstate" where
  "append_paragraph L st t sty b =
     (case new_Paragraph L t sty b of
        Inl e \<Rightarrow> Inl e
      | Inr p \<Rightarrow> Inr (st\<lparr>flowables := flowables st @ [Para p]\<rparr>))"

definition hindi_marker :: ustr where
  "hindi_marker = [2309, 2360, 2381, 2357, 2368, 2325, 2352, 2339]"

text \<open>
  One round of the loop over \<^verbatim>\<open>markdown_text.split('\n')\<close>, on the line as split.
  The branches are those of the source's \<^verbatim>\<open>if\<close>/\<^verbatim>\<open>elif\<close> chain, in its order.
\<close>

definition process_line :: "lib \<Rightarrow> string \<Rightarrow> pstate \<Rightarrow> ustr \<Rightarrow> error + pstate" where
  "process_line L base_font_name st raw =
     (let line = py_strip raw in
      if line = [] then Inr st
      else if is_table_line line then
        (let st1 = (if \<not> in_table st then st\<lparr>in_table := True, current_table_data := []\<rparr> else st);
             cells = row_cells line
         in if \<not> is_separator cells then
              (case paragraphs L (TableBody base_font_name)
                      (map (\<lambda>cell. sub_italic (sub_bold cell)) cells) of
                 Inl e \<Rightarrow> Inl e
               | Inr cell_paragraphs \<Rightarrow>
                   Inr (st1\<lparr>current_table_data := current_table_data st1 @ [cell_paragraphs]\<rparr>))
            else Inr st1)
      else if in_table st \<and> \<not> is_table_line line then
        (case end_of_table L base_font_name (current_table_data st) of
           Inl e \<Rightarrow> Inl e
         | Inr fs \<Rightarrow>
             Inr (st\<lparr>in_table := False, flowables := flowables st @ fs,
                     current_table_data := []\<rparr>))
      else if py_startswith line (ascii ''# '') then
        append_paragraph L st (ascii ''<b>'' @ py_strip (drop 2 line) @ ascii ''</b>'')
          (CustomH1 base_font_name) None
      else if py_startswith line (ascii ''## '') then
        append_paragraph L st (ascii ''<b>'' @ py_strip (drop 3 line) @ ascii ''</b>'')
          (CustomH2 base_font_name) None
      else if py_startswith line (ascii ''### '') then
        append_paragraph L st (ascii ''<b>'' @ py_strip (drop 4 line) @ ascii ''</b>'')
          (CustomH3 base_font_name) None
      else if py_startswith line (ascii ''* '') \<or> py_startswith line (ascii ''- '') then
        append_paragraph L st (sub_italic (sub_bold (py_strip (drop 2 line))))
          (CustomBullet base_font_name) (Some [8226])
      else if match_numbered line then
        (let text = sub_italic (sub_bold (py_strip (sub_numbered line)));
             number = hd (py_split 46 line)
         in append_paragraph L st text (CustomNumber base_font_name) (Some (number @ ascii ''.'')))
      else if py_startswith line (ascii ''Disclaimer:'') \<or> py_startswith line (hindi_marker @ ascii '':'') then
        append_paragraph L st (ascii ''<i>'' @ line @ ascii ''</i>'')
          (CustomDisclaimer base_font_name) None
      else
        (let processed_line = sub_italic (sub_bold line)
         in if py_strip processed_line \<noteq> [] then
              append_paragraph L st processed_line (CustomBody base_font_name) None
            else Inr st))"

fun process_lines :: "lib \<Rightarrow> string \<Rightarrow> pstate \<Rightarrow> ustr list \<Rightarrow> error + pstate" where
  "process_lines L base_font_name st [] = Inr st"
| "process_lines L base_font_name st (raw # lines) =
     (case process_line L base_font_name st raw of
        Inl e \<Rightarrow> Inl e
      | Inr st' \<Rightarrow> process_lines L base_font_name st' lines)"

section \<open>\<^verbatim>\<open>create_report_pdf\<close>\<close>

definition hindi_title :: ustr where
  "hindi_title = [2346, 2375, 2358, 2375, 2357, 2352, 32, 2349, 2370, 2350, 2367, 32, 2313,
     2346, 2351, 2379, 2327, 32, 2352, 2367, 2346, 2379, 2352, 2381, 2335]"

definition hindi_prepared_for :: ustr where
  "hindi_prepared_for = [2340, 2376, 2351, 2366, 2352, 32, 2325, 2368, 32, 2327, 2312, 58, 32]"

definition hindi_location :: ustr where
  "hindi_location = [2360, 2381, 2341, 2366, 2344, 58, 32]"

definition hindi_disclaimer :: ustr where
  "hindi_disclaimer = [2309, 2360, 2381, 2357, 2368, 2325, 2352, 2339, 58, 32, 2351, 2361,
     32, 2352, 2367, 2346, 2379, 2352, 2381, 2335, 32, 2325, 2375, 2357, 2354, 32, 2360,
     2370, 2330, 2344, 2366, 2340, 2381, 2350, 2325, 32, 2313, 2342, 2381, 2342, 2375,
     2358, 2381, 2351, 2379, 2306, 32, 2325, 2375, 32, 2354, 2367, 2319, 32, 2361, 2376,
     2404, 32, 2325, 2367, 2360, 2368, 32, 2349, 2368, 32, 2344, 2367, 2357, 2375, 2358,
     32, 2344, 2367, 2352, 2381, 2339, 2351, 32, 2354, 2375, 2344, 2375, 32, 2360, 2375,
     32, 2346, 2361, 2354, 2375, 32, 2325, 2371, 2346, 2351, 2366, 32, 2360, 2381, 2341,
     2366, 2344, 2368, 2351, 32, 2332, 2379, 2344, 2367, 2306, 2327, 32, 2309, 2343, 2367,
     2325, 2366, 2352, 2367, 2351, 2379, 2306, 44, 32, 2357, 2367, 2340, 2381, 2340, 2368,
     2351, 32, 2360, 2354, 2366, 2361, 2325, 2366, 2352, 2379, 2306, 32, 2324, 2352, 32,
     2325, 2366, 2344, 2370, 2344, 2368, 32, 2346, 2375, 2358, 2375, 2357, 2352, 2379,
     2306, 32, 2360, 2375, 32, 2346, 2352, 2366, 2350, 2352, 2381, 2358, 32, 2325, 2352,
     2375, 2306, 2404]"

definition english_disclaimer :: ustr where
  "english_disclaimer = ascii (''Disclaimer: This report is for informational purposes only. ''
     @ ''Please consult with local zoning authorities, financial advisors, and legal ''
     @ ''professionals before making any investment decisions.'')"

definition hindi_filename :: ustr where
  "hindi_filename = [2349, 2370, 2350, 2367, 95, 2352, 2367, 2346, 2379, 2352, 2381, 2335,
     46, 112, 100, 102]"

text \<open>\<^verbatim>\<open>language == 'hindi'\<close>\<close>

definition is_hindi :: "json \<Rightarrow> bool" where
  "is_hindi language = (language = JStr (ascii ''hindi''))"

text \<open>A list of \<^verbatim>\<open>Paragraph(text, style)\<close> calls, made in order.\<close>

fun paragraph_list :: "lib \<Rightarrow> (ustr \<times> pstyle) list \<Rightarrow> error + flowable list" where
  "paragraph_list L [] = Inr []"
| "paragraph_list L ((t, sty) # rest) =
     (case new_Paragraph L t sty None of
        Inl e \<Rightarrow> Inl e
      | Inr p \<Rightarrow>
          (case paragraph_list L rest of
             Inl e \<Rightarrow> Inl e
           | Inr ps \<Rightarrow> Inr (Para p # ps)))"

text \<open>The base font: the Devanagari font for Hindi when it is registered.\<close>

definition base_font :: "lib \<Rightarrow> json \<Rightarrow> error + string" where
  "base_font L language =
     (if is_hindi language then
        (case getFont L ''NotoSansDevanagari'' of
           None \<Rightarrow> Inr ''NotoSansDevanagari''
         | Some (KeyError m) \<Rightarrow> Inr ''Helvetica''
         | Some e \<Rightarrow> Inl e)
      else Inr ''Helvetica'')"

text \<open>The report header: title, name, location and a spacer.\<close>

definition pdf_header :: "lib \<Rightarrow> string \<Rightarrow> json \<Rightarrow> json \<Rightarrow> json \<Rightarrow> error + flowable list" where
  "pdf_header L base_font_name name location language =
     (case (if is_hindi language then
              paragraph_list L
                [(ascii ''<b>'' @ hindi_title @ ascii ''</b>'', CustomH1 base_font_name),
                 (ascii ''<b>'' @ hindi_prepared_for @ fstr L name @ ascii ''</b>'', CustomH3 base_font_name),
                 (ascii ''<b>'' @ hindi_location @ fstr L location @ ascii ''</b>'', CustomH3 base_font_name)]
            else
              paragraph_list L
                [(ascii ''<b>Professional Land Use Report</b>'', CustomH1 base_font_name),
                 (ascii ''<b>Prepared for: '' @ fstr L name @ ascii ''</b>'', CustomH3 base_font_name),
                 (ascii ''<b>Location: '' @ fstr L location @ ascii ''</b>'', CustomH3 base_font_name)]) of
        Inl e \<Rightarrow> Inl e
      | Inr ps \<Rightarrow> Inr (ps @ [Spacer 1 (1 / 4)]))"

text \<open>
  \<^verbatim>\<open>any('Disclaimer' in str(flowable) or ... in str(flowable) for flowable in flowables)\<close>
\<close>

definition mentions_disclaimer :: "lib \<Rightarrow> flowable list \<Rightarrow> bool" where
  "mentions_disclaimer L fs =
     list_ex (\<lambda>flowable. py_contains (ascii ''Disclaimer'') (str_of L flowable)
                \<or> py_contains hindi_marker (str_of L flowable)) fs"

definition disclaimer_text :: "json \<Rightarrow> ustr" where
  "disclaimer_text language =
     (if is_hindi language then ascii ''<i>'' @ hindi_disclaimer @ ascii ''</i>''
      else ascii ''<i>'' @ english_disclaimer @ ascii ''</i>'')"

text \<open>The final disclaimer, added when no flowable mentions one.\<close>

definition add_disclaimer :: "lib \<Rightarrow> string \<Rightarrow> json \<Rightarrow> flowable list \<Rightarrow> error + flowable list" where
  "add_disclaimer L base_font_name language fs =
     (if \<not> mentions_disclaimer L fs then
        (case new_Paragraph L (disclaimer_text language) (CustomDisclaimer base_font_name) None of
           Inl e \<Rightarrow> Inl e
         | Inr p \<Rightarrow> Inr (fs @ [Spacer 1 (1 / 5), Para p]))
      else Inr fs)"

text \<open>\<^verbatim>\<open>type(v).__name__\<close>, for the message of an \<^verbatim>\<open>AttributeError\<close>.\<close>

fun type_name :: "json \<Rightarrow> string" where
  "type_name JNull = ''NoneType''"
| "type_name (JBool b) = ''bool''"
| "type_name (JInt n) = ''int''"
| "type_name (JFloat x) = ''float''"
| "type_name (JStr s) = ''str''"
| "type_name (JArr xs) = ''list''"
| "type_name (JObj kvs) = ''dict''"

definition no_attribute :: "json \<Rightarrow> string \<Rightarrow> error" where
  "no_attribute v attr =
     AttributeError ([39] @ ascii (type_name v) @ [39] @ ascii '' object has no attribute ''
       @ [39] @ ascii attr @ [39])"

text \<open>
  The \<^verbatim>\<open>try\<close> block up to the call of \<^verbatim>\<open>doc.build\<close>: the flowables of the report, or
  the exception raised on the way.
\<close>

definition report_flowables :: "lib \<Rightarrow> json \<Rightarrow> json \<Rightarrow> json \<Rightarrow> json \<Rightarrow> error + flowable list" where
  "report_flowables L markdown_text name location language =
     (if \<not> truthy markdown_text then
        Inl (ValueError (ascii ''No markdown content provided for PDF generation''))
      else case markdown_text of
        JStr text \<Rightarrow>
          (if py_strip text = [] then
             Inl (ValueError (ascii ''No markdown content provided for PDF generation''))
           else case base_font L language of
             Inl e \<Rightarrow> Inl e
           | Inr base_font_name \<Rightarrow>
               (case pdf_header L base_font_name name location language of
                  Inl e \<Rightarrow> Inl e
                | Inr header \<Rightarrow>
                    (case process_lines L base_font_name
                            \<lparr>flowables = header, in_table = False, current_table_data = []\<rparr>
                            (py_split 10 text) of
                       Inl e \<Rightarrow> Inl e
                     | Inr st \<Rightarrow> add_disclaimer L base_font_name language (flowables st))))
      | v \<Rightarrow> Inl (no_attribute v ''strip''))"

text \<open>The flowables of the error document, for the exception \<open>e\<close> of the first block.\<close>

definition error_flowables :: "lib \<Rightarrow> error \<Rightarrow> json \<Rightarrow> json \<Rightarrow> json \<Rightarrow> error + flowable list" where
  "error_flowables L e name location language =
     paragraph_list L
       [(ascii ''PDF Generation Failed'', ErrorTitle),
        (ascii (''An error occurred while trying to create your PDF report. This usually ''
           @ ''means the font files are missing or the markdown from the AI was malformed.''),
         ErrorNormal),
        (ascii ''Error Details:'', SampleStyle ''Heading2''),
        (message e, ErrorNormal),
        (ascii ''Debug Info:'', SampleStyle ''Heading2''),
        (ascii ''Name: '' @ fstr L name @ ascii '', Location: '' @ fstr L location
           @ ascii '', Language: '' @ fstr L language, ErrorNormal),
        (ascii ''Full Traceback:'', SampleStyle ''Heading3''),
        (concat (map (\<lambda>c. if c = 10 then ascii ''<br/>'' @ [10] else [c]) (format_exc L e)),
         ErrorCode)]"

definition placeholder :: string where
  "placeholder = ''CRITICAL ERROR: Could not generate any PDF.''"

text \<open>
  The \<^verbatim>\<open>except\<close> branch: a fresh buffer, the error document, and the placeholder
  bytes when that fails too. \<open>calls\<close> lists the flowable lists \<^verbatim>\<open>doc.build\<close> was called
  with so far.
\<close>

definition fallback_pdf ::
  "lib \<Rightarrow> error \<Rightarrow> json \<Rightarrow> json \<Rightarrow> json \<Rightarrow> flowable list list \<Rightarrow> string \<times> flowable list list" where
  "fallback_pdf L e name location language calls =
     (case error_flowables L e name location language of
        Inl fallback_error \<Rightarrow> (placeholder, calls)
      | Inr efs \<Rightarrow>
          (case doc_build L efs of
             Inl fallback_error \<Rightarrow> (placeholder, calls @ [efs])
           | Inr bytes \<Rightarrow> (bytes, calls @ [efs])))"

text \<open>
  \<^verbatim>\<open>create_report_pdf\<close> returns the contents of the buffer; the model returns as well
  the calls made to the layout engine (\<^verbatim>\<open>doc.build\<close>), in order.
\<close>

definition create_report_pdf ::
  "lib \<Rightarrow> json \<Rightarrow> json \<Rightarrow> json \<Rightarrow> json \<Rightarrow> string \<times> flowable list list" where
  "create_report_pdf L markdown_text name location language =
     (case report_flowables L markdown_text name location language of
        Inl e \<Rightarrow> fallback_pdf L e name location language []
      | Inr fs \<Rightarrow>
          (case doc_build L fs of
             Inl e \<Rightarrow> fallback_pdf L e name location language [fs]
           | Inr bytes \<Rightarrow> (bytes, [fs])))"

section \<open>The endpoint \<^verbatim>\<open>/api/download_pdf\<close>\<close>

datatype response = JsonError nat ustr | SendFile string ustr

text \<open>\<^verbatim>\<open>data.get(key, default)\<close> on the parsed object.\<close>

definition dict_get :: "(ustr \<times> json) list \<Rightarrow> string \<Rightarrow> json \<Rightarrow> json" where
  "dict_get kvs key dflt = (case map_of kvs (ascii key) of Some v \<Rightarrow> v | None \<Rightarrow> dflt)"

text \<open>
  \<open>data\<close> is \<^verbatim>\<open>request.json\<close>. A body that is not an object has no \<^verbatim>\<open>get\<close>: the
  \<^verbatim>\<open>AttributeError\<close> reaches the handler of the endpoint, which answers 500. The result
  is the response and the calls made to the layout engine. (A \<^verbatim>\<open>BytesIO\<close> is always
  true, so the test \<^verbatim>\<open>if not pdf_buffer\<close> never fires; the size test only prints.)
\<close>

definition download_pdf :: "lib \<Rightarrow> json \<Rightarrow> response \<times> flowable list list" where
  "download_pdf L data =
     (if \<not> truthy data then (JsonError 400 (ascii ''No JSON data received''), [])
      else case data of
        JObj kvs \<Rightarrow>
          (let markdown_text = dict_get kvs ''markdown_text'' JNull;
               name = dict_get kvs ''name'' (JStr (ascii ''User''));
               location = dict_get kvs ''location'' (JStr (ascii ''Not Specified''));
               language = dict_get kvs ''language'' (JStr (ascii ''english''))
           in if \<not> truthy markdown_text \<or> \<not> is_str markdown_text then
                (JsonError 400 (ascii ''Invalid or missing markdown_text''), [])
              else
                (let (pdf_content, calls) = create_report_pdf L markdown_text name location language;
                     filename = (if is_hindi language then hindi_filename
                                 else ascii ''AI_Land_Report.pdf'')
                 in (SendFile pdf_content filename, calls)))
      | v \<Rightarrow> (JsonError 500 (ascii ''Failed to generate PDF: '' @ message (no_attribute v ''get'')), []))"

section \<open>Styled spans and a library to run the program with\<close>

text \<open>
  The StyledSpans of the specification, as the program writes them: the replacement
  templates of the two substitutions are \<^verbatim>\<open><b>\1</b>\<close> and \<^verbatim>\<open><i>\1</i>\<close>, and plain text
  stands as it is.
\<close>

datatype span = Plain ustr | Bold ustr | Italic ustr

fun markup :: "span list \<Rightarrow> ustr" where
  "markup [] = []"
| "markup (Plain t # spans) = t @ markup spans"
| "markup (Bold t # spans) = ascii ''<b>'' @ t @ ascii ''</b>'' @ markup spans"
| "markup (Italic t # spans) = ascii ''<i>'' @ t @ ascii ''</i>'' @ markup spans"

text \<open>
  To evaluate the program on concrete inputs, one behaviour of the library is fixed:
  every paragraph and table is accepted, the font is registered, the layout engine
  writes a PDF header, and the \<^verbatim>\<open>.text\<close> of a paragraph is its markup with each run of
  white space reduced to one space. \<open>flowable_repr\<close> stands for \<^verbatim>\<open>str(flowable)\<close>:
  ReportLab prints a paragraph with its attributes, among them the text, the style by
  its name and the bullet text, and a table with its cells; the sketch keeps these.
  (The requests evaluated below hold strings only, so \<open>py_str\<close> is never consulted;
  it is set to the name of the type.)
\<close>

fun py_words :: "ustr \<Rightarrow> ustr \<Rightarrow> ustr list" where
  "py_words w [] = (if w = [] then [] else [w])"
| "py_words w (c # cs) =
     (if py_isspace c then (if w = [] then py_words [] cs else w # py_words [] cs)
      else py_words (w @ [c]) cs)"

definition one_spaced :: "ustr \<Rightarrow> ustr" where
  "one_spaced t = py_join [32] (py_words [] t)"

fun style_name :: "pstyle \<Rightarrow> string" where
  "style_name (Style n f s) = n"
| "style_name (SampleStyle n) = n"

definition para_repr :: "para \<Rightarrow> ustr" where
  "para_repr p =
     ascii ''Paragraph( text: '' @ ptext p
       @ ascii '' style: <ParagraphStyle '' @ ascii (style_name (pstyle p))
       @ ascii ''> bulletText: '' @ (case bulletText p of None \<Rightarrow> ascii ''None'' | Some b \<Rightarrow> b)
       @ ascii '' ) #Paragraph''"

fun flowable_repr :: "flowable \<Rightarrow> ustr" where
  "flowable_repr (Para p) = para_repr p"
| "flowable_repr (Spacer w h) = ascii ''Spacer''"
| "flowable_repr (Table rows widths) =
     ascii ''Table( '' @ concat (map (\<lambda>row. concat (map para_repr row)) rows) @ ascii '' )''"

definition accepting_lib :: lib where
  "accepting_lib =
     \<lparr>paragraph_raises = (\<lambda>t. None),
      paragraph_text = one_spaced,
      table_raises = (\<lambda>rows widths. None),
      getFont = (\<lambda>f. None),
      doc_build = (\<lambda>fs. Inr ''%PDF-1.4''),
      str_of = flowable_repr,
      format_exc = (\<lambda>e. ascii ''Traceback (most recent call last): '' @ message e),
      py_str = (\<lambda>v. ascii (type_name v))\<rparr>"

section \<open>The numbered-item rule as the specification words it\<close>

text \<open>
  The specification gives the rule as \<^verbatim>\<open>^\d+\.\s\<close>: digits, a period, then any white
  space character. The program tests \<open>match_numbered\<close>; this second predicate is used
  only to say that a line falls under the specification's wording.
\<close>

definition spec_numbered_rule :: "ustr \<Rightarrow> bool" where
  "spec_numbered_rule line =
     (takeWhile py_digit line \<noteq> [] \<and>
      (case dropWhile py_digit line of
         c # w # rest \<Rightarrow> c = 46 \<and> py_isspace w
       | _ \<Rightarrow> False))"

section \<open>The rows a run of table lines leaves in the buffer\<close>

text \<open>
  When the library accepts every cell, a run of table lines leaves one row of cell
  paragraphs in \<^verbatim>\<open>current_table_data\<close> for each line that is not a separator.
\<close>

definition table_rows :: "string \<Rightarrow> ustr list \<Rightarrow> para list list" where
  "table_rows b lines =
     map (\<lambda>raw. map (\<lambda>cell. Paragraph (sub_italic (sub_bold cell)) (TableBody b) None)
                  (row_cells (py_strip raw)))
       (filter (\<lambda>raw. \<not> is_separator (row_cells (py_strip raw))) lines)"

section \<open>Facts about the string functions\<close>

lemma ascii_simps:
  "ascii [] = []" "ascii (c # cs) = of_char c # ascii cs"
  by (simp_all add: ascii_def)

lemma py_startswith_Cons:
  "py_startswith s (c # p) \<Longrightarrow> s \<noteq> [] \<and> hd s = c"
  by (cases s) (auto simp: py_startswith_def)

lemma dropWhile_hd_not: "dropWhile P s \<noteq> [] \<Longrightarrow> \<not> P (hd (dropWhile P s))"
  by (metis hd_dropWhile)

lemma rev_dropWhile_rev_hd:
  assumes "s \<noteq> []" "\<not> P (hd s)"
  shows "rev (dropWhile P (rev s)) \<noteq> [] \<and> hd (rev (dropWhile P (rev s))) = hd s"
proof -
  obtain c cs where s: "s = c # cs" using assms(1) by (cases s) auto
  with assms(2) have c: "\<not> P c" by simp
  have "dropWhile P (rev cs @ [c]) = dropWhile P (rev cs) @ [c]"
    using c by (simp add: dropWhile_append)
  then show ?thesis by (simp add: s)
qed

lemma py_strip_hd:
  assumes "py_strip s \<noteq> []"
  shows "\<not> py_isspace (hd (py_strip s))"
proof -
  let ?t = "dropWhile py_isspace s"
  have t: "?t \<noteq> []"
  proof
    assume "?t = []"
    then have "py_strip s = []" unfolding py_strip_def by (auto dest: set_dropWhileD)
    with assms show False by simp
  qed
  then have h: "\<not> py_isspace (hd ?t)" by (rule dropWhile_hd_not)
  from rev_dropWhile_rev_hd [of "dropWhile py_isspace s" py_isspace, OF t h]
  show ?thesis using h by (simp add: py_strip_def)
qed

lemma py_strip_all_space:
  assumes "list_all py_isspace s"
  shows "py_strip s = []"
proof -
  have "dropWhile py_isspace s = []"
    using assms by (simp add: list_all_iff)
  then show ?thesis unfolding py_strip_def by (auto dest: set_dropWhileD)
qed

lemma py_strip_empty_iff: "py_strip s = [] \<longleftrightarrow> list_all py_isspace s"
proof
  assume "py_strip s = []"
  then have "dropWhile py_isspace (rev (dropWhile py_isspace s)) = []" by (simp add: py_strip_def)
  then have "\<forall>c \<in> set (dropWhile py_isspace s). py_isspace c" by (simp add: dropWhile_eq_Nil_conv)
  then have "dropWhile py_isspace s = []"
    by (metis dropWhile_eq_Nil_conv hd_dropWhile list.set_sel(1))
  then show "list_all py_isspace s" by (simp add: dropWhile_eq_Nil_conv list_all_iff)
next
  assume "list_all py_isspace s"
  then show "py_strip s = []" by (rule py_strip_all_space)
qed

lemma not_digit_punct:
  "\<not> py_digit 124" "\<not> py_digit 35" "\<not> py_digit 42" "\<not> py_digit 45" "\<not> py_digit 46"
  by (simp_all add: py_digit_def digit_runs_def)

lemma hd_py_split: "hd (py_split d s) = takeWhile (\<lambda>c. c \<noteq> d) s"
  by (induction s) auto

lemma py_split_nonempty: "py_split d s \<noteq> []"
  by (induction s) auto

text \<open>
  The second equation of \<open>py_split\<close> names the recursive call twice; to evaluate a
  split the simplifier uses this form, which names it once.
\<close>

lemma py_split_Cons:
  "py_split sep (c # cs) =
     (case py_split sep cs of
        [] \<Rightarrow> [[c]]
      | w # ws \<Rightarrow> (if c = sep then [] # w # ws else (c # w) # ws))"
  using py_split_nonempty [of sep cs] by (cases "py_split sep cs") auto

declare py_split.simps(2) [simp del]

declare py_split_Cons [simp]

lemma match_numbered_split:
  assumes "match_numbered line"
  shows "hd (py_split 46 line) = takeWhile py_digit line"
proof -
  let ?ds = "takeWhile py_digit line" and ?r = "dropWhile py_digit line"
  from assms have r: "py_startswith ?r (ascii ''. '')" by (simp add: match_numbered_def)
  then obtain r' where r': "?r = 46 # r'"
    by (cases ?r) (auto simp: py_startswith_def ascii_def)
  have line: "line = ?ds @ 46 # r'" using r' by (metis takeWhile_dropWhile_id)
  have "\<forall>c \<in> set ?ds. c \<noteq> 46" using not_digit_punct(5) by (metis set_takeWhileD)
  then have "takeWhile (\<lambda>c. c \<noteq> 46) (?ds @ 46 # r') = ?ds"
    by (simp add: takeWhile_append2)
  with line show ?thesis by (simp add: hd_py_split)
qed

lemma match_numbered_hd:
  assumes "match_numbered line"
  shows "line \<noteq> [] \<and> py_digit (hd line)"
proof -
  from assms have "takeWhile py_digit line \<noteq> []" by (simp add: match_numbered_def)
  then show ?thesis by (cases line) (auto split: if_splits)
qed

section \<open>The branches of the loop\<close>

text \<open>
  One lemma for each branch of \<open>process_line\<close>: the condition under which the branch is
  taken, and what the round does then.
\<close>

lemma py_startswith_decomp: "py_startswith s p \<Longrightarrow> \<exists>rest. s = p @ rest"
  unfolding py_startswith_def by (metis append_take_drop_id)

lemma table_line_hd: "is_table_line line \<Longrightarrow> line \<noteq> [] \<and> hd line = 124"
  unfolding is_table_line_def using py_startswith_Cons [of line 124 "[]"]
  by (simp add: ascii_def)

lemma not_table_line: "line \<noteq> [] \<Longrightarrow> hd line \<noteq> 124 \<Longrightarrow> \<not> is_table_line line"
  using table_line_hd by blast

lemma process_line_blank:
  "py_strip raw = [] \<Longrightarrow> process_line L b st raw = Inr st"
  by (simp add: process_line_def)

lemma process_line_separator:
  assumes "is_table_line (py_strip raw)" "is_separator (row_cells (py_strip raw))"
  shows "process_line L b st raw =
           Inr (if in_table st then st else st\<lparr>in_table := True, current_table_data := []\<rparr>)"
  using assms table_line_hd [OF assms(1)] by (simp add: process_line_def Let_def)

lemma process_line_row:
  assumes "is_table_line (py_strip raw)" "\<not> is_separator (row_cells (py_strip raw))"
  shows "process_line L b st raw =
           (case paragraphs L (TableBody b)
                   (map (\<lambda>cell. sub_italic (sub_bold cell)) (row_cells (py_strip raw))) of
              Inl e \<Rightarrow> Inl e
            | Inr ps \<Rightarrow>
                Inr (st\<lparr>in_table := True,
                        current_table_data :=
                          (if in_table st then current_table_data st else []) @ [ps]\<rparr>))"
  using assms table_line_hd [OF assms(1)]
  by (cases st) (simp add: process_line_def Let_def split: sum.splits)

lemma process_line_end_table:
  assumes "in_table st" "py_strip raw \<noteq> []" "\<not> is_table_line (py_strip raw)"
  shows "process_line L b st raw =
           (case end_of_table L b (current_table_data st) of
              Inl e \<Rightarrow> Inl e
            | Inr fs \<Rightarrow>
                Inr (st\<lparr>in_table := False, flowables := flowables st @ fs,
                        current_table_data := []\<rparr>))"
  using assms by (simp add: process_line_def Let_def)

lemma process_line_h1:
  assumes "\<not> in_table st" "py_startswith (py_strip raw) (ascii ''# '')"
  shows "process_line L b st raw =
           append_paragraph L st (ascii ''<b>'' @ py_strip (drop 2 (py_strip raw)) @ ascii ''</b>'')
             (CustomH1 b) None"
proof -
  from py_startswith_decomp [OF assms(2)] obtain rest where l: "py_strip raw = 35 # 32 # rest"
    by (auto simp: ascii_def)
  have "\<not> is_table_line (py_strip raw)" by (rule not_table_line) (simp_all add: l)
  then show ?thesis using assms by (simp add: process_line_def Let_def l)
qed

lemma process_line_h2:
  assumes "\<not> in_table st" "py_startswith (py_strip raw) (ascii ''## '')"
  shows "process_line L b st raw =
           append_paragraph L st (ascii ''<b>'' @ py_strip (drop 3 (py_strip raw)) @ ascii ''</b>'')
             (CustomH2 b) None"
proof -
  from py_startswith_decomp [OF assms(2)] obtain rest where l: "py_strip raw = 35 # 35 # 32 # rest"
    by (auto simp: ascii_def)
  have "\<not> is_table_line (py_strip raw)" by (rule not_table_line) (simp_all add: l)
  then show ?thesis using assms(1)
    by (simp add: process_line_def Let_def l py_startswith_def ascii_def)
qed

lemma process_line_h3:
  assumes "\<not> in_table st" "py_startswith (py_strip raw) (ascii ''### '')"
  shows "process_line L b st raw =
           append_paragraph L st (ascii ''<b>'' @ py_strip (drop 4 (py_strip raw)) @ ascii ''</b>'')
             (CustomH3 b) None"
proof -
  from py_startswith_decomp [OF assms(2)] obtain rest where l: "py_strip raw = 35 # 35 # 35 # 32 # rest"
    by (auto simp: ascii_def)
  have "\<not> is_table_line (py_strip raw)" by (rule not_table_line) (simp_all add: l)
  then show ?thesis using assms(1)
    by (simp add: process_line_def Let_def l py_startswith_def ascii_def)
qed

lemma process_line_bullet:
  assumes "\<not> in_table st"
    "py_startswith (py_strip raw) (ascii ''* '') \<or> py_startswith (py_strip raw) (ascii ''- '')"
  shows "process_line L b st raw =
           append_paragraph L st (sub_italic (sub_bold (py_strip (drop 2 (py_strip raw)))))
             (CustomBullet b) (Some [8226])"
proof -
  from assms(2) obtain c rest where l: "py_strip raw = c # 32 # rest" and c: "c = 42 \<or> c = 45"
    using py_startswith_decomp by (fastforce simp: ascii_def)
  have "\<not> is_table_line (py_strip raw)" by (rule not_table_line) (use c in \<open>auto simp: l\<close>)
  then show ?thesis using assms(1) c
    by (auto simp add: process_line_def Let_def l py_startswith_def ascii_def)
qed

lemma process_line_numbered:
  assumes "\<not> in_table st" "match_numbered (py_strip raw)"
  shows "process_line L b st raw =
           append_paragraph L st
             (sub_italic (sub_bold (py_strip (drop 2 (dropWhile py_digit (py_strip raw))))))
             (CustomNumber b) (Some (takeWhile py_digit (py_strip raw) @ ascii ''.''))"
proof -
  from match_numbered_hd [OF assms(2)] obtain c rest where l: "py_strip raw = c # rest"
    and c: "py_digit c" by (cases "py_strip raw") auto
  from c have ne: "c \<noteq> 124" "c \<noteq> 35" "c \<noteq> 42" "c \<noteq> 45" using not_digit_punct by auto
  have nt: "\<not> is_table_line (py_strip raw)" by (rule not_table_line) (use ne in \<open>auto simp: l\<close>)
  have pre: "\<not> py_startswith (py_strip raw) (ascii ''# '')"
    "\<not> py_startswith (py_strip raw) (ascii ''## '')"
    "\<not> py_startswith (py_strip raw) (ascii ''### '')"
    "\<not> py_startswith (py_strip raw) (ascii ''* '')"
    "\<not> py_startswith (py_strip raw) (ascii ''- '')"
    using ne by (auto simp: l py_startswith_def ascii_def)
  have ne0: "py_strip raw \<noteq> []" by (simp add: l)
  show ?thesis
    using assms nt pre ne0 match_numbered_split [OF assms(2)]
    by (simp add: process_line_def Let_def sub_numbered_def)
qed

lemma sub_bold_hd:
  assumes "s \<noteq> []" "\<not> py_isspace (hd s)"
  shows "sub_bold s \<noteq> [] \<and> \<not> py_isspace (hd (sub_bold s))"
proof -
  obtain c cs where s: "s = c # cs" using assms(1) by (cases s) auto
  have "\<not> py_isspace 60" by (simp add: py_isspace_def)
  then show ?thesis using assms(2)
    by (auto simp: s ascii_def split: option.splits)
qed

lemma sub_italic_hd:
  assumes "s \<noteq> []" "\<not> py_isspace (hd s)"
  shows "sub_italic s \<noteq> [] \<and> \<not> py_isspace (hd (sub_italic s))"
proof -
  obtain c cs where s: "s = c # cs" using assms(1) by (cases s) auto
  have "\<not> py_isspace 60" by (simp add: py_isspace_def)
  then show ?thesis using assms(2)
    by (auto simp: s ascii_def split: option.splits)
qed

lemma py_strip_nonempty:
  assumes "t \<noteq> []" "\<not> py_isspace (hd t)"
  shows "py_strip t \<noteq> []"
proof -
  have "dropWhile py_isspace t = t" using assms by (cases t) auto
  then show ?thesis
    using rev_dropWhile_rev_hd [of t py_isspace, OF assms] by (simp add: py_strip_def)
qed

lemma emphasis_not_blank:
  assumes "py_strip raw \<noteq> []"
  shows "py_strip (sub_italic (sub_bold (py_strip raw))) \<noteq> []"
proof -
  have "\<not> py_isspace (hd (py_strip raw))" using assms by (rule py_strip_hd)
  with assms have "sub_bold (py_strip raw) \<noteq> [] \<and> \<not> py_isspace (hd (sub_bold (py_strip raw)))"
    by (rule sub_bold_hd)
  then have "sub_italic (sub_bold (py_strip raw)) \<noteq> []
      \<and> \<not> py_isspace (hd (sub_italic (sub_bold (py_strip raw))))"
    using sub_italic_hd by blast
  then show ?thesis using py_strip_nonempty by blast
qed

lemma process_line_disclaimer:
  assumes "\<not> in_table st"
    "py_startswith (py_strip raw) (ascii ''Disclaimer:'')
       \<or> py_startswith (py_strip raw) (hindi_marker @ ascii '':'')"
  shows "process_line L b st raw =
           append_paragraph L st (ascii ''<i>'' @ py_strip raw @ ascii ''</i>'')
             (CustomDisclaimer b) None"
proof -
  from assms(2) obtain c rest where l: "py_strip raw = c # rest" and c: "c = 68 \<or> c = 2309"
    using py_startswith_decomp by (fastforce simp: ascii_def hindi_marker_def)
  have nd: "\<not> py_digit c" using c by (auto simp: py_digit_def digit_runs_def)
  have nt: "\<not> is_table_line (py_strip raw)" by (rule not_table_line) (use c in \<open>auto simp: l\<close>)
  have pre: "\<not> py_startswith (py_strip raw) (ascii ''# '')"
    "\<not> py_startswith (py_strip raw) (ascii ''## '')"
    "\<not> py_startswith (py_strip raw) (ascii ''### '')"
    "\<not> py_startswith (py_strip raw) (ascii ''* '')"
    "\<not> py_startswith (py_strip raw) (ascii ''- '')"
    using c by (auto simp: l py_startswith_def ascii_def)
  have nm: "\<not> match_numbered (py_strip raw)" using nd by (simp add: match_numbered_def l)
  have ne0: "py_strip raw \<noteq> []" by (simp add: l)
  show ?thesis
    using assms nt pre ne0 nm by (simp add: process_line_def Let_def)
qed

lemma process_line_body:
  assumes "\<not> in_table st" "py_strip raw \<noteq> []" "\<not> is_table_line (py_strip raw)"
    "\<not> py_startswith (py_strip raw) (ascii ''# '')"
    "\<not> py_startswith (py_strip raw) (ascii ''## '')"
    "\<not> py_startswith (py_strip raw) (ascii ''### '')"
    "\<not> py_startswith (py_strip raw) (ascii ''* '')"
    "\<not> py_startswith (py_strip raw) (ascii ''- '')"
    "\<not> match_numbered (py_strip raw)"
    "\<not> py_startswith (py_strip raw) (ascii ''Disclaimer:'')"
    "\<not> py_startswith (py_strip raw) (hindi_marker @ ascii '':'')"
  shows "process_line L b st raw =
           append_paragraph L st (sub_italic (sub_bold (py_strip raw))) (CustomBody b) None"
  using assms emphasis_not_blank [OF assms(2)] by (simp add: process_line_def Let_def)

section \<open>Facts about the two substitutions\<close>

text \<open>
  In these lemmas 42 is the asterisk and 10 the newline. A run whose content has
  neither is replaced and the pass goes on with the text after it; text without an
  asterisk is left as it is.
\<close>

lemma find_bold_close_prefix:
  assumes "42 \<notin> set a" "10 \<notin> set a"
  shows "find_bold_close (a @ s) =
           (case find_bold_close s of None \<Rightarrow> None | Some (g, r) \<Rightarrow> Some (a @ g, r))"
  using assms by (induction a) (auto split: option.splits)

lemma find_bold_close_star:
  assumes "x \<noteq> 42"
  shows "find_bold_close (42 # x # s) =
           (case find_bold_close (x # s) of None \<Rightarrow> None | Some (g, r) \<Rightarrow> Some (42 # g, r))"
  using assms by (auto split: option.splits)

lemma find_bold_close_run:
  assumes "42 \<notin> set g" "10 \<notin> set g"
  shows "find_bold_close (g @ 42 # 42 # rest) = Some (g, rest)"
  using find_bold_close_prefix [OF assms, of "42 # 42 # rest"] by simp

lemma sub_bold_prefix:
  assumes "42 \<notin> set pre"
  shows "sub_bold (pre @ s) = pre @ sub_bold s"
  using assms by (induction pre) auto

lemma sub_bold_run:
  assumes "42 \<notin> set pre" "42 \<notin> set g" "10 \<notin> set g"
  shows "sub_bold (pre @ 42 # 42 # g @ 42 # 42 # rest)
           = pre @ ascii ''<b>'' @ g @ ascii ''</b>'' @ sub_bold rest"
  using sub_bold_prefix [OF assms(1)] find_bold_close_run [OF assms(2,3)] by simp

lemma find_italic_close_run:
  assumes "42 \<notin> set g" "10 \<notin> set g"
  shows "find_italic_close (g @ 42 # rest) = Some (g, rest)"
  using assms by (induction g) auto

lemma sub_italic_prefix:
  assumes "42 \<notin> set pre"
  shows "sub_italic (pre @ s) = pre @ sub_italic s"
  using assms by (induction pre) auto

lemma sub_italic_run:
  assumes "42 \<notin> set pre" "42 \<notin> set g" "10 \<notin> set g"
  shows "sub_italic (pre @ 42 # g @ 42 # rest)
           = pre @ ascii ''<i>'' @ g @ ascii ''</i>'' @ sub_italic rest"
  using sub_italic_prefix [OF assms(1)] find_italic_close_run [OF assms(2,3)] by simp

lemma italic_inside_bold:
  assumes p: "42 \<notin> set p" "10 \<notin> set p"
    and q: "42 \<notin> set q" "10 \<notin> set q" "q \<noteq> []"
    and r: "42 \<notin> set r" "10 \<notin> set r" "r \<noteq> []"
  shows "sub_bold (42 # 42 # p @ 42 # q @ 42 # r @ [42, 42])
           = ascii ''<b>'' @ p @ 42 # q @ 42 # r @ ascii ''</b>''"
    and "sub_italic (sub_bold (42 # 42 # p @ 42 # q @ 42 # r @ [42, 42]))
           = ascii ''<b>'' @ p @ ascii ''<i>'' @ q @ ascii ''</i>'' @ r @ ascii ''</b>''"
proof -
  obtain x q' where q': "q = x # q'" and x: "x \<noteq> 42" using q by (cases q) auto
  obtain y r' where r': "r = y # r'" and y: "y \<noteq> 42" using r by (cases r) auto
  have c3: "find_bold_close (r @ [42, 42]) = Some (r, [])"
    using find_bold_close_run [OF r(1,2), of "[]"] by simp
  have "find_bold_close (42 # r @ [42, 42]) = Some (42 # r, [])"
    using find_bold_close_star [OF y, of "r' @ [42, 42]"] c3 by (simp add: r')
  then have c2: "find_bold_close (q @ 42 # r @ [42, 42]) = Some (q @ 42 # r, [])"
    using find_bold_close_prefix [OF q(1,2), of "42 # r @ [42, 42]"] by simp
  have "find_bold_close (42 # q @ 42 # r @ [42, 42]) = Some (42 # q @ 42 # r, [])"
    using find_bold_close_star [OF x, of "q' @ 42 # r @ [42, 42]"] c2 by (simp add: q')
  then have c1: "find_bold_close (p @ 42 # q @ 42 # r @ [42, 42]) = Some (p @ 42 # q @ 42 # r, [])"
    using find_bold_close_prefix [OF p, of "42 # q @ 42 # r @ [42, 42]"] by simp
  then show bold: "sub_bold (42 # 42 # p @ 42 # q @ 42 # r @ [42, 42])
           = ascii ''<b>'' @ p @ 42 # q @ 42 # r @ ascii ''</b>''"
    by simp
  have pre: "42 \<notin> set (ascii ''<b>'' @ p)" using p by (simp add: ascii_def)
  have post: "42 \<notin> set (r @ ascii ''</b>'')" using r by (simp add: ascii_def)
  have "sub_italic ((ascii ''<b>'' @ p) @ 42 # q @ 42 # (r @ ascii ''</b>''))
      = (ascii ''<b>'' @ p) @ ascii ''<i>'' @ q @ ascii ''</i>'' @ sub_italic (r @ ascii ''</b>'')"
    using pre q(1,2) by (rule sub_italic_run)
  moreover have "sub_italic (r @ ascii ''</b>'') = r @ ascii ''</b>''"
    using sub_italic_prefix [OF post, of "[]"] by simp
  ultimately show "sub_italic (sub_bold (42 # 42 # p @ 42 # q @ 42 # r @ [42, 42]))
           = ascii ''<b>'' @ p @ ascii ''<i>'' @ q @ ascii ''</i>'' @ r @ ascii ''</b>''"
    using bold by simp
qed

section \<open>Lines that start with digits\<close>

lemma numbered_shape:
  assumes "\<not> in_table st" and "match_numbered (py_strip raw)"
  shows "\<exists>digits rest.
           py_strip raw = digits @ ascii ''. '' @ rest
           \<and> digits \<noteq> [] \<and> list_all py_digit digits
           \<and> process_line L b st raw =
               append_paragraph L st (sub_italic (sub_bold (py_strip rest)))
                 (CustomNumber b) (Some (digits @ ascii ''.''))"
proof -
  let ?line = "py_strip raw"
  let ?digits = "takeWhile py_digit ?line" and ?tail = "dropWhile py_digit ?line"
  from assms(2) have ne: "?digits \<noteq> []" and dot: "py_startswith ?tail (ascii ''. '')"
    by (simp_all add: match_numbered_def)
  from py_startswith_decomp [OF dot] obtain rest where tail: "?tail = ascii ''. '' @ rest" ..
  have "?line = ?digits @ ?tail" by simp
  then have shape: "?line = ?digits @ ascii ''. '' @ rest" using tail by simp
  have rest: "drop 2 ?tail = rest" by (simp add: tail ascii_def)
  have digits: "list_all py_digit ?digits"
    by (simp add: list_all_iff) (metis set_takeWhileD)
  have "process_line L b st raw =
      append_paragraph L st (sub_italic (sub_bold (py_strip rest)))
        (CustomNumber b) (Some (?digits @ ascii ''.''))"
    using process_line_numbered [OF assms, of L b] rest by simp
  with shape ne digits show ?thesis by blast
qed

lemma digit_first_is_body:
  assumes "\<not> in_table st" and "takeWhile py_digit (py_strip raw) \<noteq> []"
    and "\<not> match_numbered (py_strip raw)"
  shows "process_line L b st raw =
           append_paragraph L st (sub_italic (sub_bold (py_strip raw))) (CustomBody b) None"
proof -
  from assms(2) obtain c rest where l: "py_strip raw = c # rest" and c: "py_digit c"
    by (cases "py_strip raw") (auto split: if_splits)
  have "\<not> py_digit 68" "\<not> py_digit 2309" by (simp_all add: py_digit_def digit_runs_def)
  with c have ne: "c \<noteq> 124" "c \<noteq> 35" "c \<noteq> 42" "c \<noteq> 45" "c \<noteq> 68" "c \<noteq> 2309"
    using not_digit_punct by auto
  have nt: "\<not> is_table_line (py_strip raw)" by (rule not_table_line) (use ne in \<open>auto simp: l\<close>)
  have pre: "\<not> py_startswith (py_strip raw) (ascii ''# '')"
    "\<not> py_startswith (py_strip raw) (ascii ''## '')"
    "\<not> py_startswith (py_strip raw) (ascii ''### '')"
    "\<not> py_startswith (py_strip raw) (ascii ''* '')"
    "\<not> py_startswith (py_strip raw) (ascii ''- '')"
    "\<not> py_startswith (py_strip raw) (ascii ''Disclaimer:'')"
    "\<not> py_startswith (py_strip raw) (hindi_marker @ ascii '':'')"
    using ne by (auto simp: l py_startswith_def ascii_def hindi_marker_def)
  have ne0: "py_strip raw \<noteq> []" by (simp add: l)
  show ?thesis
    using process_line_body [OF assms(1) ne0 nt pre(1-5) assms(3) pre(6,7)] .
qed

section \<open>Runs of table lines\<close>

lemma paragraphs_accepted:
  assumes "\<forall>t\<in>set ts. paragraph_raises L t = None"
  shows "paragraphs L sty ts = Inr (map (\<lambda>t. Paragraph t sty None) ts)"
  using assms by (induction ts) (simp_all add: new_Paragraph_def)

lemma process_lines_append:
  "process_lines L b st (xs @ ys) =
     (case process_lines L b st xs of
        Inl e \<Rightarrow> Inl e
      | Inr st' \<Rightarrow> process_lines L b st' ys)"
  by (induction xs arbitrary: st) (simp_all split: sum.splits)

lemma table_lines_run:
  assumes lines: "list_all (\<lambda>raw. is_table_line (py_strip raw)) lines"
    and acc: "\<forall>raw\<in>set lines. \<forall>cell\<in>set (row_cells (py_strip raw)).
                paragraph_raises L (sub_italic (sub_bold cell)) = None"
  shows "process_lines L b \<lparr>flowables = F, in_table = T, current_table_data = D\<rparr> lines =
           Inr \<lparr>flowables = F, in_table = (T \<or> lines \<noteq> []),
                current_table_data = (if T \<or> lines = [] then D else []) @ table_rows b lines\<rparr>"
  using lines acc
proof (induction lines arbitrary: T D)
  case Nil
  then show ?case by (simp add: table_rows_def)
next
  case (Cons raw lines)
  let ?st = "\<lparr>flowables = F, in_table = T, current_table_data = D\<rparr>"
  let ?row = "map (\<lambda>cell. Paragraph (sub_italic (sub_bold cell)) (TableBody b) None)
                (row_cells (py_strip raw))"
  from Cons.prems have tl: "is_table_line (py_strip raw)"
    and rest: "list_all (\<lambda>raw. is_table_line (py_strip raw)) lines"
    and here: "\<forall>cell\<in>set (row_cells (py_strip raw)).
                 paragraph_raises L (sub_italic (sub_bold cell)) = None"
    and later: "\<forall>raw\<in>set lines. \<forall>cell\<in>set (row_cells (py_strip raw)).
                 paragraph_raises L (sub_italic (sub_bold cell)) = None"
    by simp_all
  note IH = Cons.IH [OF rest later]
  show ?case
  proof (cases "is_separator (row_cells (py_strip raw))")
    case True
    have "process_line L b ?st raw =
        Inr \<lparr>flowables = F, in_table = True, current_table_data = (if T then D else [])\<rparr>"
      using process_line_separator [OF tl True, of L b ?st] by simp
    then show ?thesis using IH [of True "if T then D else []"] True
      by (simp add: table_rows_def)
  next
    case False
    have "paragraphs L (TableBody b)
            (map (\<lambda>cell. sub_italic (sub_bold cell)) (row_cells (py_strip raw))) = Inr ?row"
      using paragraphs_accepted [of "map (\<lambda>cell. sub_italic (sub_bold cell)) (row_cells (py_strip raw))" L "TableBody b"]
        here by (simp add: comp_def)
    then have "process_line L b ?st raw =
        Inr \<lparr>flowables = F, in_table = True,
             current_table_data = (if T then D else []) @ [?row]\<rparr>"
      using process_line_row [OF tl False, of L b ?st] by simp
    then show ?thesis
      using IH [of True "(if T then D else []) @ [?row]"] False
      by (simp add: table_rows_def)
  qed
qed

lemma table_rows_length:
  "length (table_rows b lines)
     = length lines - length (filter (\<lambda>raw. is_separator (row_cells (py_strip raw))) lines)"
proof -
  have "length (filter (\<lambda>raw. is_separator (row_cells (py_strip raw))) lines)
      + length (filter (\<lambda>raw. \<not> is_separator (row_cells (py_strip raw))) lines) = length lines"
    by (rule sum_length_filter_compl)
  then show ?thesis by (simp add: table_rows_def)
qed

lemma table_block_shape:
  assumes "table_block L b rows = Inr fs" and "rows \<noteq> []"
  shows "\<exists>table_data widths. fs = [Table table_data widths, Spacer 1 (1 / 10)]
           \<and> length table_data = length rows"
  using assms
  by (auto simp: table_block_def Let_def split: sum.splits option.splits)

section \<open>The two handlers of \<^verbatim>\<open>create_report_pdf\<close>\<close>





section \<open>The checks of the endpoint\<close>

lemma dict_get_empty: "dict_get [] key dflt = dflt"
  by (simp add: dict_get_def)

lemma is_str_iff: "is_str v \<longleftrightarrow> (\<exists>s. v = JStr s)"
  by (cases v) auto

lemma download_pdf_rejects:
  assumes "kvs \<noteq> []"
    and "\<not> truthy (dict_get kvs ''markdown_text'' JNull)
         \<or> \<not> is_str (dict_get kvs ''markdown_text'' JNull)"
  shows "download_pdf L (JObj kvs) = (JsonError 400 (ascii ''Invalid or missing markdown_text''), [])"
  using assms by (auto simp: download_pdf_def Let_def)

lemma download_pdf_no_body:
  assumes "\<not> truthy data"
  shows "download_pdf L data = (JsonError 400 (ascii ''No JSON data received''), [])"
  using assms by (simp add: download_pdf_def)

lemma download_pdf_not_object:
  assumes "truthy data" and "\<forall>kvs. data \<noteq> JObj kvs"
  shows "download_pdf L data =
           (JsonError 500 (ascii ''Failed to generate PDF: '' @ message (no_attribute data ''get'')), [])"
  using assms by (cases data) (simp_all add: download_pdf_def)

section \<open>Blank markdown text\<close>


section \<open>The default disclaimer\<close>

lemma py_contains_iff: "py_contains w s \<longleftrightarrow> (\<exists>a c. s = a @ w @ c)"
proof (induction s)
  case Nil
  then show ?case by auto
next
  case (Cons x s)
  have start: "py_startswith (x # s) w \<longleftrightarrow> (\<exists>c. x # s = w @ c)"
    unfolding py_startswith_def by (metis append_eq_conv_conj append_take_drop_id)
  show ?case
  proof
    assume "py_contains w (x # s)"
    then consider "py_startswith (x # s) w" | "py_contains w s" by auto
    then show "\<exists>a c. x # s = a @ w @ c"
    proof cases
      case 1
      then obtain c where "x # s = w @ c" using start by blast
      then have "x # s = [] @ w @ c" by simp
      then show ?thesis by blast
    next
      case 2
      then obtain a c where "s = a @ w @ c" using Cons.IH by blast
      then have "x # s = (x # a) @ w @ c" by simp
      then show ?thesis by blast
    qed
  next
    assume "\<exists>a c. x # s = a @ w @ c"
    then obtain a c where e: "x # s = a @ w @ c" by blast
    show "py_contains w (x # s)"
    proof (cases a)
      case Nil
      with e have "py_startswith (x # s) w" using start by auto
      then show ?thesis by simp
    next
      case (Cons y a')
      with e have "s = a' @ w @ c" by simp
      then have "py_contains w s" using Cons.IH by blast
      then show ?thesis by simp
    qed
  qed
qed

lemma mentions_disclaimer_iff:
  "mentions_disclaimer L fs \<longleftrightarrow>
     (\<exists>f\<in>set fs. py_contains (ascii ''Disclaimer'') (str_of L f)
                   \<or> py_contains hindi_marker (str_of L f))"
  by (simp add: mentions_disclaimer_def list_ex_iff)

lemma process_line_extends:
  assumes "process_line L b st raw = Inr st'"
  shows "\<exists>fs. flowables st' = flowables st @ fs"
proof -
  have ap: "\<And>t sty bt. append_paragraph L st t sty bt = Inr st'
      \<Longrightarrow> \<exists>fs. flowables st' = flowables st @ fs"
    by (auto simp: append_paragraph_def split: sum.splits)
  show ?thesis
  proof (cases "py_strip raw = []")
    case True
    with assms show ?thesis by (simp add: process_line_blank)
  next
    case ne: False
    show ?thesis
    proof (cases "is_table_line (py_strip raw)")
      case tl: True
      show ?thesis
      proof (cases "is_separator (row_cells (py_strip raw))")
        case True
        with assms tl show ?thesis
          by (auto simp: process_line_separator split: if_splits)
      next
        case False
        with assms tl show ?thesis
          by (auto simp: process_line_row split: sum.splits)
      qed
    next
      case ntl: False
      show ?thesis
      proof (cases "in_table st")
        case True
        with assms ne ntl show ?thesis
          by (auto simp: process_line_end_table split: sum.splits)
      next
        case False
        with assms ne ntl ap show ?thesis
          by (auto simp: process_line_def Let_def split: if_splits)
      qed
    qed
  qed
qed

lemma process_lines_extends:
  "process_lines L b st lines = Inr st' \<Longrightarrow> \<exists>fs. flowables st' = flowables st @ fs"
proof (induction lines arbitrary: st)
  case Nil
  then show ?case by simp
next
  case (Cons raw lines)
  then obtain st1 where 1: "process_line L b st raw = Inr st1"
    and 2: "process_lines L b st1 lines = Inr st'"
    by (auto split: sum.splits)
  from process_line_extends [OF 1] obtain fs1 where "flowables st1 = flowables st @ fs1" ..
  moreover from Cons.IH [OF 2] obtain fs2 where "flowables st' = flowables st1 @ fs2" ..
  ultimately have "flowables st' = flowables st @ (fs1 @ fs2)" by simp
  then show ?case ..
qed

lemma report_flowables_parts:
  assumes "report_flowables L (JStr text) name location language = Inr out"
  shows "\<exists>base header st.
           base_font L language = Inr base
           \<and> pdf_header L base name location language = Inr header
           \<and> process_lines L base
                 \<lparr>flowables = header, in_table = False, current_table_data = []\<rparr>
                 (py_split 10 text) = Inr st
           \<and> add_disclaimer L base language (flowables st) = Inr out"
  using assms by (auto simp: report_flowables_def split: if_splits sum.splits)


lemma add_disclaimer_cases:
  assumes "add_disclaimer L base language fs = Inr out"
  shows "if mentions_disclaimer L fs then out = fs
         else out = fs @ [Spacer 1 (1 / 5),
                          Para (Paragraph (disclaimer_text language) (CustomDisclaimer base) None)]"
  using assms
  by (auto simp: add_disclaimer_def new_Paragraph_def split: if_splits sum.splits option.splits)

lemma shown_text_mentions:
  assumes mem: "Para (Paragraph t sty bt) \<in> set fs"
    and word: "py_contains (ascii ''Disclaimer'') t \<or> py_contains hindi_marker t"
    and shown: "\<exists>a c. str_of L (Para (Paragraph t sty bt)) = a @ t @ c"
  shows "mentions_disclaimer L fs"
proof -
  from shown obtain a c where s: "str_of L (Para (Paragraph t sty bt)) = a @ t @ c" by blast
  have sub: "\<And>w. py_contains w t \<Longrightarrow> py_contains w (str_of L (Para (Paragraph t sty bt)))"
  proof -
    fix w assume "py_contains w t"
    then obtain a' c' where "t = a' @ w @ c'" unfolding py_contains_iff by blast
    with s have "str_of L (Para (Paragraph t sty bt)) = (a @ a') @ w @ (c' @ c)" by simp
    then show "py_contains w (str_of L (Para (Paragraph t sty bt)))"
      unfolding py_contains_iff by blast
  qed
  from word sub have "py_contains (ascii ''Disclaimer'') (str_of L (Para (Paragraph t sty bt)))
      \<or> py_contains hindi_marker (str_of L (Para (Paragraph t sty bt)))" by blast
  with mem show ?thesis unfolding mentions_disclaimer_iff by blast
qed

section \<open>Evaluating the program\<close>

text \<open>The definitions unfolded to run the program on a concrete input.\<close>

lemmas string_eval = ascii_def py_strip_def py_isspace_def py_startswith_def py_endswith_def
  is_table_line_def match_numbered_def py_digit_def digit_runs_def hindi_marker_def

lemmas style_eval = CustomH1_def CustomH2_def CustomH3_def CustomBody_def CustomBullet_def
  CustomNumber_def CustomDisclaimer_def TableBody_def TableHeader_def ErrorNormal_def
  ErrorTitle_def ErrorCode_def

lemmas run_eval = process_line_def Let_def string_eval row_cells_def is_separator_def
  py_remove_def new_Paragraph_def append_paragraph_def end_of_table_def table_block_def
  col_widths_def text_attr_def one_spaced_def

lemmas report_eval = report_flowables_def base_font_def is_hindi_def pdf_header_def fstr_def
  add_disclaimer_def mentions_disclaimer_def disclaimer_text_def english_disclaimer_def
  para_repr_def style_eval

section \<open>The claims\<close>

text \<open>
  Claim C1 does not hold of the program. The branch that closes a table is one arm of
  the \<^verbatim>\<open>if\<close>/\<^verbatim>\<open>elif\<close> chain, so the line that triggers it is used up: for the input
  of a two-row table followed by the line \<^verbatim>\<open>Hello\<close>, the report has the table and the
  default disclaimer but no paragraph \<^verbatim>\<open>Hello\<close>, although the same line alone gives
  that paragraph.
\<close>

theorem line_after_table_is_dropped:
  "report_flowables accepting_lib
     (JStr (ascii ''| a | b |\<newline>| c | d |\<newline>Hello''))
     (JStr (ascii ''User'')) (JStr (ascii ''Pune'')) (JStr (ascii ''english''))
   = Inr [Para (Paragraph (ascii ''<b>Professional Land Use Report</b>'') (CustomH1 ''Helvetica'') None),
          Para (Paragraph (ascii ''<b>Prepared for: User</b>'') (CustomH3 ''Helvetica'') None),
          Para (Paragraph (ascii ''<b>Location: Pune</b>'') (CustomH3 ''Helvetica'') None),
          Spacer 1 (1 / 4),
          Table [[Paragraph (ascii ''<b>a</b>'') (TableHeader ''Helvetica'') None,
                  Paragraph (ascii ''<b>b</b>'') (TableHeader ''Helvetica'') None],
                 [Paragraph (ascii ''c'') (TableBody ''Helvetica'') None,
                  Paragraph (ascii ''d'') (TableBody ''Helvetica'') None]]
            [35 / 100, 65 / 100],
          Spacer 1 (1 / 10),
          Spacer 1 (1 / 5),
          Para (Paragraph (ascii ''<i>'' @ english_disclaimer @ ascii ''</i>'')
                  (CustomDisclaimer ''Helvetica'') None)]
   \<and> report_flowables accepting_lib
     (JStr (ascii ''Hello''))
     (JStr (ascii ''User'')) (JStr (ascii ''Pune'')) (JStr (ascii ''english''))
   = Inr [Para (Paragraph (ascii ''<b>Professional Land Use Report</b>'') (CustomH1 ''Helvetica'') None),
          Para (Paragraph (ascii ''<b>Prepared for: User</b>'') (CustomH3 ''Helvetica'') None),
          Para (Paragraph (ascii ''<b>Location: Pune</b>'') (CustomH3 ''Helvetica'') None),
          Spacer 1 (1 / 4),
          Para (Paragraph (ascii ''Hello'') (CustomBody ''Helvetica'') None),
          Spacer 1 (1 / 5),
          Para (Paragraph (ascii ''<i>'' @ english_disclaimer @ ascii ''</i>'')
                  (CustomDisclaimer ''Helvetica'') None)]"
  by (simp add: report_eval run_eval accepting_lib_def)

text \<open>
  Claim C2 does not hold of the program. Nothing closes a table after the loop: for an
  input that ends with two table rows, the loop ends with the rows still in the buffer
  and \<^verbatim>\<open>in_table\<close> set, and the report has no Table block.
\<close>

theorem table_at_end_of_input_is_lost:
  "report_flowables accepting_lib
     (JStr (ascii ''Intro\<newline>| a | b |\<newline>| c | d |''))
     (JStr (ascii ''User'')) (JStr (ascii ''Pune'')) (JStr (ascii ''english''))
   = Inr [Para (Paragraph (ascii ''<b>Professional Land Use Report</b>'') (CustomH1 ''Helvetica'') None),
          Para (Paragraph (ascii ''<b>Prepared for: User</b>'') (CustomH3 ''Helvetica'') None),
          Para (Paragraph (ascii ''<b>Location: Pune</b>'') (CustomH3 ''Helvetica'') None),
          Spacer 1 (1 / 4),
          Para (Paragraph (ascii ''Intro'') (CustomBody ''Helvetica'') None),
          Spacer 1 (1 / 5),
          Para (Paragraph (ascii ''<i>'' @ english_disclaimer @ ascii ''</i>'')
                  (CustomDisclaimer ''Helvetica'') None)]
   \<and> process_lines accepting_lib ''Helvetica''
        \<lparr>flowables = [], in_table = False, current_table_data = []\<rparr>
        [ascii ''Intro'', ascii ''| a | b |'', ascii ''| c | d |'']
   = Inr \<lparr>flowables = [Para (Paragraph (ascii ''Intro'') (CustomBody ''Helvetica'') None)],
          in_table = True,
          current_table_data =
            [[Paragraph (ascii ''a'') (TableBody ''Helvetica'') None,
              Paragraph (ascii ''b'') (TableBody ''Helvetica'') None],
             [Paragraph (ascii ''c'') (TableBody ''Helvetica'') None,
              Paragraph (ascii ''d'') (TableBody ''Helvetica'') None]]\<rparr>"
  by (simp add: report_eval run_eval accepting_lib_def)

text \<open>
  Claim C8, as stated, fails: the italic pass is not confined to the text that the
  bold pass left plain. On \<^verbatim>\<open>**a *b* c**\<close> the bold pass makes the whole text one bold
  run, so that no plain text remains, and the italic pass then rewrites \<^verbatim>\<open>*b*\<close> inside
  it; the body paragraph carries an italic run nested in the bold run, not the one span
  \<open>Bold "a *b* c"\<close>. On \<^verbatim>\<open>*a **b* c**\<close> the two passes give tags that cross.
\<close>

theorem italic_inside_bold_counterexample:
  "sub_bold (ascii ''**a *b* c**'') = markup [Bold (ascii ''a *b* c'')]
   \<and> process_line accepting_lib ''Helvetica''
         \<lparr>flowables = [], in_table = False, current_table_data = []\<rparr>
         (ascii ''**a *b* c**'')
       = Inr \<lparr>flowables =
                [Para (Paragraph (ascii ''<b>a <i>b</i> c</b>'') (CustomBody ''Helvetica'') None)],
              in_table = False, current_table_data = []\<rparr>
   \<and> ascii ''<b>a <i>b</i> c</b>'' \<noteq> markup [Bold (ascii ''a *b* c'')]
   \<and> sub_italic (sub_bold (ascii ''*a **b* c**'')) = ascii ''<i>a <b>b</i> c</b>''"
  by (simp add: process_line_def Let_def string_eval
      append_paragraph_def new_Paragraph_def accepting_lib_def style_eval)

text \<open>
  Claim C8, amended. Inline emphasis is resolved by exactly two passes in a fixed
  order, the italic pass over the whole result of the bold pass: a body line is
  appended with the text \<open>sub_italic (sub_bold line)\<close>. The bold pass rewrites every
  double-asterisk run, left to right: after text without an asterisk, a run whose
  content has no asterisk and no newline becomes bold and the pass continues with the
  rest. The italic pass does the same with the single-asterisk runs. Text without an
  asterisk is unchanged by both. The italic pass reaches into bold runs: a
  single-asterisk run inside a double-asterisk run becomes an italic run inside the
  bold one. On \<^verbatim>\<open>**bold** and *italic*\<close> the result is the markup of
  \<open>[Bold "bold", Plain " and ", Italic "italic"]\<close>, and the passes in the other order give
  something else.
\<close>

theorem two_pass_emphasis:
  "(\<not> in_table st \<and> py_strip raw \<noteq> [] \<and> \<not> is_table_line (py_strip raw)
      \<and> \<not> py_startswith (py_strip raw) (ascii ''# '')
      \<and> \<not> py_startswith (py_strip raw) (ascii ''## '')
      \<and> \<not> py_startswith (py_strip raw) (ascii ''### '')
      \<and> \<not> py_startswith (py_strip raw) (ascii ''* '')
      \<and> \<not> py_startswith (py_strip raw) (ascii ''- '')
      \<and> \<not> match_numbered (py_strip raw)
      \<and> \<not> py_startswith (py_strip raw) (ascii ''Disclaimer:'')
      \<and> \<not> py_startswith (py_strip raw) (hindi_marker @ ascii '':'')
      \<longrightarrow> process_line L base st raw =
            append_paragraph L st (sub_italic (sub_bold (py_strip raw))) (CustomBody base) None)
   \<and> (42 \<notin> set pre \<and> 42 \<notin> set g \<and> 10 \<notin> set g
      \<longrightarrow> sub_bold (pre @ ascii ''**'' @ g @ ascii ''**'' @ rest)
            = pre @ markup [Bold g] @ sub_bold rest)
   \<and> (42 \<notin> set pre \<and> 42 \<notin> set g \<and> 10 \<notin> set g
      \<longrightarrow> sub_italic (pre @ ascii ''*'' @ g @ ascii ''*'' @ rest)
            = pre @ markup [Italic g] @ sub_italic rest)
   \<and> (42 \<notin> set pre \<longrightarrow> sub_bold pre = pre \<and> sub_italic pre = pre)
   \<and> (42 \<notin> set p \<and> 10 \<notin> set p \<and> 42 \<notin> set q \<and> 10 \<notin> set q \<and> q \<noteq> []
        \<and> 42 \<notin> set r \<and> 10 \<notin> set r \<and> r \<noteq> []
      \<longrightarrow> sub_bold (ascii ''**'' @ p @ ascii ''*'' @ q @ ascii ''*'' @ r @ ascii ''**'')
            = markup [Bold (p @ ascii ''*'' @ q @ ascii ''*'' @ r)]
        \<and> sub_italic (sub_bold (ascii ''**'' @ p @ ascii ''*'' @ q @ ascii ''*'' @ r @ ascii ''**''))
            = ascii ''<b>'' @ p @ markup [Italic q] @ r @ ascii ''</b>'')
   \<and> sub_italic (sub_bold (ascii ''**bold** and *italic*''))
       = markup [Bold (ascii ''bold''), Plain (ascii '' and ''), Italic (ascii ''italic'')]
   \<and> sub_bold (sub_italic (ascii ''**bold** and *italic*''))
       \<noteq> markup [Bold (ascii ''bold''), Plain (ascii '' and ''), Italic (ascii ''italic'')]"
proof (intro conjI impI)
  assume "\<not> in_table st \<and> py_strip raw \<noteq> [] \<and> \<not> is_table_line (py_strip raw)
      \<and> \<not> py_startswith (py_strip raw) (ascii ''# '')
      \<and> \<not> py_startswith (py_strip raw) (ascii ''## '')
      \<and> \<not> py_startswith (py_strip raw) (ascii ''### '')
      \<and> \<not> py_startswith (py_strip raw) (ascii ''* '')
      \<and> \<not> py_startswith (py_strip raw) (ascii ''- '')
      \<and> \<not> match_numbered (py_strip raw)
      \<and> \<not> py_startswith (py_strip raw) (ascii ''Disclaimer:'')
      \<and> \<not> py_startswith (py_strip raw) (hindi_marker @ ascii '':'')"
  then show "process_line L base st raw =
      append_paragraph L st (sub_italic (sub_bold (py_strip raw))) (CustomBody base) None"
    using process_line_body [of st raw L base] by blast
next
  assume "42 \<notin> set pre \<and> 42 \<notin> set g \<and> 10 \<notin> set g"
  then show "sub_bold (pre @ ascii ''**'' @ g @ ascii ''**'' @ rest)
      = pre @ markup [Bold g] @ sub_bold rest"
    using sub_bold_run [of pre g rest] by (simp add: ascii_def)
next
  assume "42 \<notin> set pre \<and> 42 \<notin> set g \<and> 10 \<notin> set g"
  then show "sub_italic (pre @ ascii ''*'' @ g @ ascii ''*'' @ rest)
      = pre @ markup [Italic g] @ sub_italic rest"
    using sub_italic_run [of pre g rest] by (simp add: ascii_def)
next
  assume "42 \<notin> set pre"
  then show "sub_bold pre = pre" using sub_bold_prefix [of pre "[]"] by simp
next
  assume "42 \<notin> set pre"
  then show "sub_italic pre = pre" using sub_italic_prefix [of pre "[]"] by simp
next
  assume a: "42 \<notin> set p \<and> 10 \<notin> set p \<and> 42 \<notin> set q \<and> 10 \<notin> set q \<and> q \<noteq> []
        \<and> 42 \<notin> set r \<and> 10 \<notin> set r \<and> r \<noteq> []"
  then show "sub_bold (ascii ''**'' @ p @ ascii ''*'' @ q @ ascii ''*'' @ r @ ascii ''**'')
      = markup [Bold (p @ ascii ''*'' @ q @ ascii ''*'' @ r)]"
    using italic_inside_bold(1) [of p q r] by (simp add: ascii_def)
  from a show "sub_italic (sub_bold (ascii ''**'' @ p @ ascii ''*'' @ q @ ascii ''*'' @ r @ ascii ''**''))
      = ascii ''<b>'' @ p @ markup [Italic q] @ r @ ascii ''</b>''"
    using italic_inside_bold(2) [of p q r] by (simp add: ascii_def)
next
  show "sub_italic (sub_bold (ascii ''**bold** and *italic*''))
      = markup [Bold (ascii ''bold''), Plain (ascii '' and ''), Italic (ascii ''italic'')]"
    by (simp add: ascii_def)
next
  show "sub_bold (sub_italic (ascii ''**bold** and *italic*''))
      \<noteq> markup [Bold (ascii ''bold''), Plain (ascii '' and ''), Italic (ascii ''italic'')]"
    by (simp add: ascii_def)
qed

text \<open>
  The amended claim at a text with two bold runs, at one with two italic runs, at an
  italic run inside a bold run, and at the body line \<^verbatim>\<open>**bold** and *italic*\<close>.
\<close>

theorem two_pass_emphasis_witness:
  "sub_bold (ascii ''x **a** **c**'') = ascii ''x <b>a</b> <b>c</b>''
   \<and> sub_italic (ascii ''x *a* *c*'') = ascii ''x <i>a</i> <i>c</i>''
   \<and> sub_italic (sub_bold (ascii ''**a *b* c**'')) = ascii ''<b>a <i>b</i> c</b>''
   \<and> process_line accepting_lib ''Helvetica''
         \<lparr>flowables = [], in_table = False, current_table_data = []\<rparr>
         (ascii ''**bold** and *italic*'')
       = Inr \<lparr>flowables =
                [Para (Paragraph
                         (markup [Bold (ascii ''bold''), Plain (ascii '' and ''),
                                  Italic (ascii ''italic'')])
                         (CustomBody ''Helvetica'') None)],
              in_table = False, current_table_data = []\<rparr>"
proof -
  let ?st = "\<lparr>flowables = [], in_table = False, current_table_data = []\<rparr>"
  note T = two_pass_emphasis
  have b2: "sub_bold (ascii '' **c**'') = ascii '' <b>c</b>''"
    using T [where pre = "ascii '' ''" and g = "ascii ''c''" and rest = "[]"]
    by (simp add: ascii_def)
  have bold: "sub_bold (ascii ''x **a** **c**'') = ascii ''x <b>a</b> <b>c</b>''"
    using T [where pre = "ascii ''x ''" and g = "ascii ''a''" and rest = "ascii '' **c**''"] b2
    by (simp add: ascii_def)
  have i2: "sub_italic (ascii '' *c*'') = ascii '' <i>c</i>''"
    using T [where pre = "ascii '' ''" and g = "ascii ''c''" and rest = "[]"]
    by (simp add: ascii_def)
  have italic: "sub_italic (ascii ''x *a* *c*'') = ascii ''x <i>a</i> <i>c</i>''"
    using T [where pre = "ascii ''x ''" and g = "ascii ''a''" and rest = "ascii '' *c*''"] i2
    by (simp add: ascii_def)
  have inside: "sub_italic (sub_bold (ascii ''**a *b* c**'')) = ascii ''<b>a <i>b</i> c</b>''"
    using T [where p = "ascii ''a ''" and q = "ascii ''b''" and r = "ascii '' c''"]
    by (simp add: ascii_def)
  have line: "process_line accepting_lib ''Helvetica'' ?st (ascii ''**bold** and *italic*'')
       = append_paragraph accepting_lib ?st
           (sub_italic (sub_bold (py_strip (ascii ''**bold** and *italic*''))))
           (CustomBody ''Helvetica'') None"
    using T [where st = ?st and raw = "ascii ''**bold** and *italic*''"
        and L = accepting_lib and base = "''Helvetica''"]
    by (simp add: string_eval)
  have spans: "sub_italic (sub_bold (ascii ''**bold** and *italic*''))
      = markup [Bold (ascii ''bold''), Plain (ascii '' and ''), Italic (ascii ''italic'')]"
    using T by blast
  have strip: "py_strip (ascii ''**bold** and *italic*'') = ascii ''**bold** and *italic*''"
    by (simp add: string_eval)
  have run: "process_line accepting_lib ''Helvetica'' ?st (ascii ''**bold** and *italic*'')
       = Inr \<lparr>flowables =
                [Para (Paragraph
                         (markup [Bold (ascii ''bold''), Plain (ascii '' and ''),
                                  Italic (ascii ''italic'')])
                         (CustomBody ''Helvetica'') None)],
              in_table = False, current_table_data = []\<rparr>"
    unfolding line strip spans
    by (simp add: append_paragraph_def new_Paragraph_def accepting_lib_def)
  from bold italic inside run show ?thesis by blast
qed

text \<open>
  Claim C9, as the specification states it, fails: the line \<^verbatim>\<open>3.<TAB>Third step\<close> has
  digits, a period and a white space character, yet the program, which asks for a space
  after the period, emits it as a body paragraph without any marker.
\<close>

theorem numbered_rule_tab_counterexample:
  "spec_numbered_rule (ascii ''3.'' @ [9] @ ascii ''Third step'')
   \<and> process_line accepting_lib ''Helvetica''
         \<lparr>flowables = [], in_table = False, current_table_data = []\<rparr>
         (ascii ''3.'' @ [9] @ ascii ''Third step'')
       = Inr \<lparr>flowables =
                [Para (Paragraph (ascii ''3.'' @ [9] @ ascii ''Third step'')
                         (CustomBody ''Helvetica'') None)],
              in_table = False, current_table_data = []\<rparr>"
  by (simp add: spec_numbered_rule_def process_line_def Let_def string_eval
      append_paragraph_def new_Paragraph_def accepting_lib_def)

text \<open>
  Claim C9, amended. For every line read while no table is open: if, once stripped, it
  starts with digits, a period and one space, the paragraph appended is the numbered
  item whose marker is those digits, as written, followed by a period, and whose text
  is the formatted rest of the line; if it starts with digits and a period followed by
  another white space character, it is appended as a body paragraph, without a marker.
\<close>

theorem numbered_marker_literal:
  assumes "\<not> in_table st"
  shows "(match_numbered (py_strip raw) \<longrightarrow>
            (\<exists>digits rest.
               py_strip raw = digits @ ascii ''. '' @ rest
               \<and> digits \<noteq> [] \<and> list_all py_digit digits
               \<and> process_line L b st raw =
                   append_paragraph L st (sub_italic (sub_bold (py_strip rest)))
                     (CustomNumber b) (Some (digits @ ascii ''.''))))
       \<and> (spec_numbered_rule (py_strip raw) \<and> \<not> match_numbered (py_strip raw) \<longrightarrow>
            process_line L b st raw =
              append_paragraph L st (sub_italic (sub_bold (py_strip raw))) (CustomBody b) None)"
proof (intro conjI impI)
  assume "match_numbered (py_strip raw)"
  with assms show "\<exists>digits rest.
       py_strip raw = digits @ ascii ''. '' @ rest
       \<and> digits \<noteq> [] \<and> list_all py_digit digits
       \<and> process_line L b st raw =
           append_paragraph L st (sub_italic (sub_bold (py_strip rest)))
             (CustomNumber b) (Some (digits @ ascii ''.''))"
    by (rule numbered_shape)
next
  assume a: "spec_numbered_rule (py_strip raw) \<and> \<not> match_numbered (py_strip raw)"
  then have "takeWhile py_digit (py_strip raw) \<noteq> []" by (simp add: spec_numbered_rule_def)
  with assms a show "process_line L b st raw =
      append_paragraph L st (sub_italic (sub_bold (py_strip raw))) (CustomBody b) None"
    using digit_first_is_body by blast
qed

text \<open>
  The amended claim at \<^verbatim>\<open>3. Third step\<close>, whose marker is \<^verbatim>\<open>3.\<close>, and at
  \<^verbatim>\<open>7.<TAB>Seventh\<close>, a body paragraph.
\<close>

theorem numbered_marker_literal_witness:
  "match_numbered (py_strip (ascii ''3. Third step''))
   \<and> process_line accepting_lib ''Helvetica''
         \<lparr>flowables = [], in_table = False, current_table_data = []\<rparr> (ascii ''3. Third step'')
       = Inr \<lparr>flowables =
                [Para (Paragraph (ascii ''Third step'') (CustomNumber ''Helvetica'')
                         (Some (ascii ''3.'')))],
              in_table = False, current_table_data = []\<rparr>
   \<and> spec_numbered_rule (py_strip (ascii ''7.'' @ [9] @ ascii ''Seventh''))
   \<and> \<not> match_numbered (py_strip (ascii ''7.'' @ [9] @ ascii ''Seventh''))
   \<and> process_line accepting_lib ''Helvetica''
         \<lparr>flowables = [], in_table = False, current_table_data = []\<rparr>
         (ascii ''7.'' @ [9] @ ascii ''Seventh'')
       = Inr \<lparr>flowables =
                [Para (Paragraph (ascii ''7.'' @ [9] @ ascii ''Seventh'')
                         (CustomBody ''Helvetica'') None)],
              in_table = False, current_table_data = []\<rparr>"
proof -
  let ?st = "\<lparr>flowables = [], in_table = False, current_table_data = []\<rparr>"
  have h1: "\<not> in_table ?st" by simp
  have h2: "match_numbered (py_strip (ascii ''3. Third step''))"
    by (simp add: string_eval)
  from numbered_marker_literal [OF h1, of "ascii ''3. Third step''" accepting_lib "''Helvetica''"] h2
  obtain digits rest where
    shape: "py_strip (ascii ''3. Third step'') = digits @ ascii ''. '' @ rest"
    and d: "digits \<noteq> []" "list_all py_digit digits"
    and run: "process_line accepting_lib ''Helvetica'' ?st (ascii ''3. Third step'') =
       append_paragraph accepting_lib ?st (sub_italic (sub_bold (py_strip rest)))
         (CustomNumber ''Helvetica'') (Some (digits @ ascii ''.''))"
    by blast
  have line: "py_strip (ascii ''3. Third step'') = [51, 46, 32, 84, 104, 105, 114, 100, 32, 115, 116, 101, 112]"
    by (simp add: string_eval)
  have nd: "\<not> py_digit 46" by (rule not_digit_punct)
  have "digits = [51]"
  proof (cases digits)
    case Nil
    with d show ?thesis by simp
  next
    case (Cons x xs)
    show ?thesis
    proof (cases xs)
      case Nil
      with Cons shape line show ?thesis by (simp add: ascii_def)
    next
      case (Cons y ys)
      with \<open>digits = x # xs\<close> shape line have "y = 46" by (simp add: ascii_def)
      with Cons \<open>digits = x # xs\<close> d(2) nd show ?thesis by simp
    qed
  qed
  with shape line have "rest = [84, 104, 105, 114, 100, 32, 115, 116, 101, 112]"
    by (simp add: ascii_def)
  with run \<open>digits = [51]\<close> have numbered:
    "process_line accepting_lib ''Helvetica'' ?st (ascii ''3. Third step'')
       = Inr \<lparr>flowables =
                [Para (Paragraph (ascii ''Third step'') (CustomNumber ''Helvetica'')
                         (Some (ascii ''3.'')))],
              in_table = False, current_table_data = []\<rparr>"
    by (simp add: append_paragraph_def new_Paragraph_def accepting_lib_def string_eval)
  have h3: "spec_numbered_rule (py_strip (ascii ''7.'' @ [9] @ ascii ''Seventh''))"
    by (simp add: spec_numbered_rule_def string_eval)
  have h4: "\<not> match_numbered (py_strip (ascii ''7.'' @ [9] @ ascii ''Seventh''))"
    by (simp add: string_eval)
  from numbered_marker_literal [OF h1, of "ascii ''7.'' @ [9] @ ascii ''Seventh''" accepting_lib "''Helvetica''"]
    h3 h4
  have "process_line accepting_lib ''Helvetica'' ?st (ascii ''7.'' @ [9] @ ascii ''Seventh'') =
      append_paragraph accepting_lib ?st
        (sub_italic (sub_bold (py_strip (ascii ''7.'' @ [9] @ ascii ''Seventh''))))
        (CustomBody ''Helvetica'') None"
    by blast
  then have plain:
    "process_line accepting_lib ''Helvetica'' ?st (ascii ''7.'' @ [9] @ ascii ''Seventh'')
       = Inr \<lparr>flowables =
                [Para (Paragraph (ascii ''7.'' @ [9] @ ascii ''Seventh'')
                         (CustomBody ''Helvetica'') None)],
              in_table = False, current_table_data = []\<rparr>"
    by (simp add: append_paragraph_def new_Paragraph_def accepting_lib_def string_eval)
  from h2 numbered h3 h4 plain show ?thesis by blast
qed

text \<open>
  Claim C6, as stated, fails for headings and disclaimers: the heading line
  \<^verbatim>\<open># **Plan**\<close> and the disclaimer line \<^verbatim>\<open>Disclaimer: *not* advice\<close> keep their
  asterisks as literal characters (the heading is wrapped whole in \<^verbatim>\<open><b>\<close>, the
  disclaimer whole in \<^verbatim>\<open><i>\<close>), where the two substitutions would have given
  \<^verbatim>\<open><b>Plan</b>\<close>.
\<close>

theorem heading_markers_left_literal_counterexample:
  "process_line accepting_lib ''Helvetica''
       \<lparr>flowables = [], in_table = False, current_table_data = []\<rparr> (ascii ''# **Plan**'')
     = Inr \<lparr>flowables =
              [Para (Paragraph (ascii ''<b>**Plan**</b>'') (CustomH1 ''Helvetica'') None)],
            in_table = False, current_table_data = []\<rparr>
   \<and> process_line accepting_lib ''Helvetica''
       \<lparr>flowables = [], in_table = False, current_table_data = []\<rparr>
       (ascii ''Disclaimer: *not* advice'')
     = Inr \<lparr>flowables =
              [Para (Paragraph (ascii ''<i>Disclaimer: *not* advice</i>'')
                       (CustomDisclaimer ''Helvetica'') None)],
            in_table = False, current_table_data = []\<rparr>
   \<and> sub_italic (sub_bold (ascii ''**Plan**'')) = ascii ''<b>Plan</b>''"
  by (simp add: process_line_def Let_def string_eval
      append_paragraph_def new_Paragraph_def accepting_lib_def)

text \<open>
  Claim C6, amended. The two substitutions (bold, then italic) are applied to every
  cell of every table row that is not a separator, whether the row opens a table or
  continues one; and, for a line read while no table is open, to the text of bullet
  items, numbered items and body paragraphs. For a line read while no table is open, a
  heading is its literal text wrapped in \<^verbatim>\<open><b>\<close> and a disclaimer its literal line
  wrapped in \<^verbatim>\<open><i>\<close>, with no marker rewritten.
\<close>

theorem emphasis_applied_where:
  "(is_table_line (py_strip raw) \<and> \<not> is_separator (row_cells (py_strip raw))
      \<longrightarrow> process_line L b st raw =
            (case paragraphs L (TableBody b)
                    (map (\<lambda>cell. sub_italic (sub_bold cell)) (row_cells (py_strip raw))) of
               Inl e \<Rightarrow> Inl e
             | Inr ps \<Rightarrow>
                 Inr (st\<lparr>in_table := True,
                         current_table_data :=
                           (if in_table st then current_table_data st else []) @ [ps]\<rparr>)))
   \<and> (\<not> in_table st \<longrightarrow>
       (py_startswith (py_strip raw) (ascii ''* '') \<or> py_startswith (py_strip raw) (ascii ''- '')
            \<longrightarrow> process_line L b st raw =
                  append_paragraph L st (sub_italic (sub_bold (py_strip (drop 2 (py_strip raw)))))
                    (CustomBullet b) (Some [8226]))
       \<and> (match_numbered (py_strip raw)
            \<longrightarrow> process_line L b st raw =
                  append_paragraph L st
                    (sub_italic (sub_bold (py_strip (drop 2 (dropWhile py_digit (py_strip raw))))))
                    (CustomNumber b) (Some (takeWhile py_digit (py_strip raw) @ ascii ''.'')))
       \<and> (py_strip raw \<noteq> [] \<and> \<not> is_table_line (py_strip raw)
          \<and> \<not> py_startswith (py_strip raw) (ascii ''# '')
          \<and> \<not> py_startswith (py_strip raw) (ascii ''## '')
          \<and> \<not> py_startswith (py_strip raw) (ascii ''### '')
          \<and> \<not> py_startswith (py_strip raw) (ascii ''* '')
          \<and> \<not> py_startswith (py_strip raw) (ascii ''- '')
          \<and> \<not> match_numbered (py_strip raw)
          \<and> \<not> py_startswith (py_strip raw) (ascii ''Disclaimer:'')
          \<and> \<not> py_startswith (py_strip raw) (hindi_marker @ ascii '':'')
            \<longrightarrow> process_line L b st raw =
                  append_paragraph L st (sub_italic (sub_bold (py_strip raw))) (CustomBody b) None)
       \<and> (py_startswith (py_strip raw) (ascii ''# '')
            \<longrightarrow> process_line L b st raw =
                  append_paragraph L st
                    (ascii ''<b>'' @ py_strip (drop 2 (py_strip raw)) @ ascii ''</b>'')
                    (CustomH1 b) None)
       \<and> (py_startswith (py_strip raw) (ascii ''## '')
            \<longrightarrow> process_line L b st raw =
                  append_paragraph L st
                    (ascii ''<b>'' @ py_strip (drop 3 (py_strip raw)) @ ascii ''</b>'')
                    (CustomH2 b) None)
       \<and> (py_startswith (py_strip raw) (ascii ''### '')
            \<longrightarrow> process_line L b st raw =
                  append_paragraph L st
                    (ascii ''<b>'' @ py_strip (drop 4 (py_strip raw)) @ ascii ''</b>'')
                    (CustomH3 b) None)
       \<and> (py_startswith (py_strip raw) (ascii ''Disclaimer:'')
            \<or> py_startswith (py_strip raw) (hindi_marker @ ascii '':'')
            \<longrightarrow> process_line L b st raw =
                  append_paragraph L st (ascii ''<i>'' @ py_strip raw @ ascii ''</i>'')
                    (CustomDisclaimer b) None))"
proof (intro conjI impI)
  assume "is_table_line (py_strip raw) \<and> \<not> is_separator (row_cells (py_strip raw))"
  then show "process_line L b st raw =
      (case paragraphs L (TableBody b)
              (map (\<lambda>cell. sub_italic (sub_bold cell)) (row_cells (py_strip raw))) of
         Inl e \<Rightarrow> Inl e
       | Inr ps \<Rightarrow>
           Inr (st\<lparr>in_table := True,
                   current_table_data :=
                     (if in_table st then current_table_data st else []) @ [ps]\<rparr>))"
    using process_line_row by blast
next
  assume assms: "\<not> in_table st"
  assume "py_startswith (py_strip raw) (ascii ''* '') \<or> py_startswith (py_strip raw) (ascii ''- '')"
  with assms show "process_line L b st raw =
      append_paragraph L st (sub_italic (sub_bold (py_strip (drop 2 (py_strip raw)))))
        (CustomBullet b) (Some [8226])"
    by (rule process_line_bullet)
next
  assume assms: "\<not> in_table st"
  assume "match_numbered (py_strip raw)"
  with assms show "process_line L b st raw =
      append_paragraph L st
        (sub_italic (sub_bold (py_strip (drop 2 (dropWhile py_digit (py_strip raw))))))
        (CustomNumber b) (Some (takeWhile py_digit (py_strip raw) @ ascii ''.''))"
    by (rule process_line_numbered)
next
  assume assms: "\<not> in_table st"
  assume "py_strip raw \<noteq> [] \<and> \<not> is_table_line (py_strip raw)
          \<and> \<not> py_startswith (py_strip raw) (ascii ''# '')
          \<and> \<not> py_startswith (py_strip raw) (ascii ''## '')
          \<and> \<not> py_startswith (py_strip raw) (ascii ''### '')
          \<and> \<not> py_startswith (py_strip raw) (ascii ''* '')
          \<and> \<not> py_startswith (py_strip raw) (ascii ''- '')
          \<and> \<not> match_numbered (py_strip raw)
          \<and> \<not> py_startswith (py_strip raw) (ascii ''Disclaimer:'')
          \<and> \<not> py_startswith (py_strip raw) (hindi_marker @ ascii '':'')"
  then show "process_line L b st raw =
      append_paragraph L st (sub_italic (sub_bold (py_strip raw))) (CustomBody b) None"
    using assms process_line_body [of st raw L b] by blast
next
  assume assms: "\<not> in_table st"
  assume "py_startswith (py_strip raw) (ascii ''# '')"
  with assms show "process_line L b st raw =
      append_paragraph L st (ascii ''<b>'' @ py_strip (drop 2 (py_strip raw)) @ ascii ''</b>'')
        (CustomH1 b) None"
    by (rule process_line_h1)
next
  assume assms: "\<not> in_table st"
  assume "py_startswith (py_strip raw) (ascii ''## '')"
  with assms show "process_line L b st raw =
      append_paragraph L st (ascii ''<b>'' @ py_strip (drop 3 (py_strip raw)) @ ascii ''</b>'')
        (CustomH2 b) None"
    by (rule process_line_h2)
next
  assume assms: "\<not> in_table st"
  assume "py_startswith (py_strip raw) (ascii ''### '')"
  with assms show "process_line L b st raw =
      append_paragraph L st (ascii ''<b>'' @ py_strip (drop 4 (py_strip raw)) @ ascii ''</b>'')
        (CustomH3 b) None"
    by (rule process_line_h3)
next
  assume assms: "\<not> in_table st"
  assume "py_startswith (py_strip raw) (ascii ''Disclaimer:'')
            \<or> py_startswith (py_strip raw) (hindi_marker @ ascii '':'')"
  with assms show "process_line L b st raw =
      append_paragraph L st (ascii ''<i>'' @ py_strip raw @ ascii ''</i>'')
        (CustomDisclaimer b) None"
    by (rule process_line_disclaimer)
qed

text \<open>
  The amended claim at a bullet item, at a row that opens a table, at a row that
  continues one, at a body line and at a heading.
\<close>

theorem emphasis_applied_where_witness:
  "process_line accepting_lib ''Helvetica''
       \<lparr>flowables = [], in_table = False, current_table_data = []\<rparr>
       (ascii ''* **Cost**: *low*'')
     = Inr \<lparr>flowables =
              [Para (Paragraph (ascii ''<b>Cost</b>: <i>low</i>'') (CustomBullet ''Helvetica'')
                       (Some [8226]))],
            in_table = False, current_table_data = []\<rparr>
   \<and> process_line accepting_lib ''Helvetica''
       \<lparr>flowables = [], in_table = False, current_table_data = []\<rparr>
       (ascii ''| **A** | *b* |'')
     = Inr \<lparr>flowables = [], in_table = True,
            current_table_data =
              [[Paragraph (ascii ''<b>A</b>'') (TableBody ''Helvetica'') None,
                Paragraph (ascii ''<i>b</i>'') (TableBody ''Helvetica'') None]]\<rparr>
   \<and> process_line accepting_lib ''Helvetica''
       \<lparr>flowables = [], in_table = True,
        current_table_data = [[Paragraph (ascii ''h'') (TableBody ''Helvetica'') None]]\<rparr>
       (ascii ''| **x** |'')
     = Inr \<lparr>flowables = [], in_table = True,
            current_table_data =
              [[Paragraph (ascii ''h'') (TableBody ''Helvetica'') None],
               [Paragraph (ascii ''<b>x</b>'') (TableBody ''Helvetica'') None]]\<rparr>
   \<and> process_line accepting_lib ''Helvetica''
       \<lparr>flowables = [], in_table = False, current_table_data = []\<rparr>
       (ascii ''See *this*'')
     = Inr \<lparr>flowables =
              [Para (Paragraph (ascii ''See <i>this</i>'') (CustomBody ''Helvetica'') None)],
            in_table = False, current_table_data = []\<rparr>
   \<and> process_line accepting_lib ''Helvetica''
       \<lparr>flowables = [], in_table = False, current_table_data = []\<rparr>
       (ascii ''## *Costs*'')
     = Inr \<lparr>flowables =
              [Para (Paragraph (ascii ''<b>*Costs*</b>'') (CustomH2 ''Helvetica'') None)],
            in_table = False, current_table_data = []\<rparr>"
proof -
  let ?st = "\<lparr>flowables = [], in_table = False, current_table_data = []\<rparr>"
  let ?open = "\<lparr>flowables = [], in_table = True,
        current_table_data = [[Paragraph (ascii ''h'') (TableBody ''Helvetica'') None]]\<rparr>"
  have bullet: "process_line accepting_lib ''Helvetica'' ?st (ascii ''* **Cost**: *low*'')
     = Inr \<lparr>flowables =
              [Para (Paragraph (ascii ''<b>Cost</b>: <i>low</i>'') (CustomBullet ''Helvetica'')
                       (Some [8226]))],
            in_table = False, current_table_data = []\<rparr>"
    using emphasis_applied_where [where raw = "ascii ''* **Cost**: *low*''"
        and L = accepting_lib and b = "''Helvetica''" and st = ?st]
    by (simp add: string_eval append_paragraph_def new_Paragraph_def accepting_lib_def)
  have row: "process_line accepting_lib ''Helvetica'' ?st (ascii ''| **A** | *b* |'')
     = Inr \<lparr>flowables = [], in_table = True,
            current_table_data =
              [[Paragraph (ascii ''<b>A</b>'') (TableBody ''Helvetica'') None,
                Paragraph (ascii ''<i>b</i>'') (TableBody ''Helvetica'') None]]\<rparr>"
    using emphasis_applied_where [where raw = "ascii ''| **A** | *b* |''"
        and L = accepting_lib and b = "''Helvetica''" and st = ?st]
    by (simp add: string_eval row_cells_def is_separator_def py_remove_def
        new_Paragraph_def accepting_lib_def)
  have later: "process_line accepting_lib ''Helvetica'' ?open (ascii ''| **x** |'')
     = Inr \<lparr>flowables = [], in_table = True,
            current_table_data =
              [[Paragraph (ascii ''h'') (TableBody ''Helvetica'') None],
               [Paragraph (ascii ''<b>x</b>'') (TableBody ''Helvetica'') None]]\<rparr>"
    using emphasis_applied_where [where raw = "ascii ''| **x** |''"
        and L = accepting_lib and b = "''Helvetica''" and st = ?open]
    by (simp add: string_eval row_cells_def is_separator_def py_remove_def
        new_Paragraph_def accepting_lib_def)
  have body: "process_line accepting_lib ''Helvetica'' ?st (ascii ''See *this*'')
     = Inr \<lparr>flowables =
              [Para (Paragraph (ascii ''See <i>this</i>'') (CustomBody ''Helvetica'') None)],
            in_table = False, current_table_data = []\<rparr>"
    using emphasis_applied_where [where raw = "ascii ''See *this*''"
        and L = accepting_lib and b = "''Helvetica''" and st = ?st]
    by (simp add: string_eval append_paragraph_def new_Paragraph_def accepting_lib_def)
  have heading: "process_line accepting_lib ''Helvetica'' ?st (ascii ''## *Costs*'')
     = Inr \<lparr>flowables =
              [Para (Paragraph (ascii ''<b>*Costs*</b>'') (CustomH2 ''Helvetica'') None)],
            in_table = False, current_table_data = []\<rparr>"
    using emphasis_applied_where [where raw = "ascii ''## *Costs*''"
        and L = accepting_lib and b = "''Helvetica''" and st = ?st]
    by (simp add: string_eval append_paragraph_def new_Paragraph_def accepting_lib_def)
  from bullet row later body heading show ?thesis by simp
qed

text \<open>
  Claim C7. A pipe-delimited row all of whose cells are empty once \<^verbatim>\<open>-\<close>, \<^verbatim>\<open>:\<close> and
  spaces are removed adds no row to the buffer and leaves the table open, in whatever
  state it is read. Consequently, for a run of \<open>N \<ge> 2\<close> table lines of which exactly
  one is a separator, read from outside a table, whose cells the library accepts: the
  buffer holds \<open>N - 1\<close> rows after the run, and when the \<^verbatim>\<open>try\<close> block builds the table
  at the next line that is not a table line, the Table block appended has exactly
  \<open>N - 1\<close> rows.
\<close>

theorem separator_row_contributes_nothing:
  assumes lines: "list_all (\<lambda>raw. is_table_line (py_strip raw)) lines"
    and one: "length (filter (\<lambda>raw. is_separator (row_cells (py_strip raw))) lines) = 1"
    and n: "2 \<le> length lines"
    and scanning: "\<not> in_table st"
    and nxt: "py_strip nxt \<noteq> []" "\<not> is_table_line (py_strip nxt)"
    and acc: "\<forall>raw\<in>set lines. \<forall>cell\<in>set (row_cells (py_strip raw)).
                paragraph_raises L (sub_italic (sub_bold cell)) = None"
    and built: "table_block L b (table_rows b lines) = Inr fs"
  shows "(\<forall>raw st0. is_table_line (py_strip raw) \<and> is_separator (row_cells (py_strip raw))
            \<longrightarrow> process_line L b st0 raw =
                  Inr (if in_table st0 then st0
                       else st0\<lparr>in_table := True, current_table_data := []\<rparr>))
       \<and> process_lines L b st lines =
           Inr (st\<lparr>in_table := True, current_table_data := table_rows b lines\<rparr>)
       \<and> length (table_rows b lines) = length lines - 1
       \<and> (\<exists>rows widths.
              fs = [Table rows widths, Spacer 1 (1 / 10)]
              \<and> length rows = length lines - 1
              \<and> process_lines L b st (lines @ [nxt]) =
                  Inr (st\<lparr>flowables := flowables st @ [Table rows widths, Spacer 1 (1 / 10)],
                          in_table := False, current_table_data := []\<rparr>))"
proof (intro conjI allI impI)
  fix raw st0
  assume "is_table_line (py_strip raw) \<and> is_separator (row_cells (py_strip raw))"
  then show "process_line L b st0 raw =
      Inr (if in_table st0 then st0 else st0\<lparr>in_table := True, current_table_data := []\<rparr>)"
    using process_line_separator by blast
next
  obtain F D where st: "st = \<lparr>flowables = F, in_table = False, current_table_data = D\<rparr>"
    using scanning by (cases st) auto
  from n have ne: "lines \<noteq> []" by auto
  let ?st' = "\<lparr>flowables = F, in_table = True, current_table_data = table_rows b lines\<rparr>"
  have run: "process_lines L b st lines = Inr ?st'"
    using table_lines_run [OF lines acc, of b F False D] ne by (simp add: st)
  then show "process_lines L b st lines =
      Inr (st\<lparr>in_table := True, current_table_data := table_rows b lines\<rparr>)"
    by (simp add: st)
  show len: "length (table_rows b lines) = length lines - 1"
    using table_rows_length [of b lines] one by simp
  have rows: "table_rows b lines \<noteq> []" using len n by auto
  from table_block_shape [OF built rows]
  obtain table_data widths where
    fs: "fs = [Table table_data widths, Spacer 1 (1 / 10)]"
    and l: "length table_data = length (table_rows b lines)" by blast
  have e: "end_of_table L b (table_rows b lines) = Inr fs"
    using built rows by (simp add: end_of_table_def)
  have "process_line L b ?st' nxt =
      Inr (?st'\<lparr>in_table := False, flowables := flowables ?st' @ fs,
                 current_table_data := []\<rparr>)"
    using process_line_end_table [of ?st' nxt L b] nxt e by simp
  then have "process_lines L b st (lines @ [nxt]) =
      Inr \<lparr>flowables = F @ fs, in_table = False, current_table_data = []\<rparr>"
    using run by (simp add: process_lines_append)
  then show "\<exists>rows widths.
        fs = [Table rows widths, Spacer 1 (1 / 10)]
        \<and> length rows = length lines - 1
        \<and> process_lines L b st (lines @ [nxt]) =
            Inr (st\<lparr>flowables := flowables st @ [Table rows widths, Spacer 1 (1 / 10)],
                    in_table := False, current_table_data := []\<rparr>)"
    using fs l len by (simp add: st)
qed

text \<open>
  A table of three lines with one separator, followed by a paragraph line: the Table
  block has two rows.
\<close>

theorem separator_row_contributes_nothing_witness:
  "process_lines accepting_lib ''Helvetica''
       \<lparr>flowables = [], in_table = False, current_table_data = []\<rparr>
       ([ascii ''| Detail | Breakdown |'', ascii ''|---|---|'', ascii ''| Pros | Low cost |'']
        @ [ascii ''Next paragraph''])
     = Inr \<lparr>flowables =
              [Table [[Paragraph (ascii ''<b>Detail</b>'') (TableHeader ''Helvetica'') None,
                       Paragraph (ascii ''<b>Breakdown</b>'') (TableHeader ''Helvetica'') None],
                      [Paragraph (ascii ''Pros'') (TableBody ''Helvetica'') None,
                       Paragraph (ascii ''Low cost'') (TableBody ''Helvetica'') None]]
                 [35 / 100, 65 / 100],
               Spacer 1 (1 / 10)],
            in_table = False, current_table_data = []\<rparr>
   \<and> length (table_rows ''Helvetica''
         [ascii ''| Detail | Breakdown |'', ascii ''|---|---|'', ascii ''| Pros | Low cost |''])
       = 3 - 1"
proof -
  let ?st = "\<lparr>flowables = [], in_table = False, current_table_data = []\<rparr>"
  let ?lines = "[ascii ''| Detail | Breakdown |'', ascii ''|---|---|'', ascii ''| Pros | Low cost |'']"
  let ?fs = "[Table [[Paragraph (ascii ''<b>Detail</b>'') (TableHeader ''Helvetica'') None,
                       Paragraph (ascii ''<b>Breakdown</b>'') (TableHeader ''Helvetica'') None],
                      [Paragraph (ascii ''Pros'') (TableBody ''Helvetica'') None,
                       Paragraph (ascii ''Low cost'') (TableBody ''Helvetica'') None]]
                 [35 / 100, 65 / 100],
               Spacer 1 (1 / 10)]"
  have lines: "list_all (\<lambda>raw. is_table_line (py_strip raw)) ?lines"
    by (simp add: string_eval)
  have one: "length (filter (\<lambda>raw. is_separator (row_cells (py_strip raw))) ?lines) = 1"
    by (simp add: string_eval row_cells_def is_separator_def py_remove_def)
  have n: "2 \<le> length ?lines" by simp
  have scanning: "\<not> in_table ?st" by simp
  have nxt: "py_strip (ascii ''Next paragraph'') \<noteq> []"
    "\<not> is_table_line (py_strip (ascii ''Next paragraph''))"
    by (simp_all add: string_eval)
  have acc: "\<forall>raw\<in>set ?lines. \<forall>cell\<in>set (row_cells (py_strip raw)).
                paragraph_raises accepting_lib (sub_italic (sub_bold cell)) = None"
    by (simp add: accepting_lib_def)
  have built: "table_block accepting_lib ''Helvetica'' (table_rows ''Helvetica'' ?lines) = Inr ?fs"
    by (simp add: table_rows_def run_eval style_eval accepting_lib_def)
  from separator_row_contributes_nothing
    [OF lines one n scanning nxt acc built]
  show ?thesis by auto
qed



text \<open>
  Claim C4. The endpoint rejects a request whose markdown text is missing, empty or
  not a string with status 400, and makes no call to the layout engine: a body that
  is null or an empty object gets the error \<^verbatim>\<open>No JSON data received\<close>, an object whose
  \<^verbatim>\<open>markdown_text\<close> is false or not a string gets \<^verbatim>\<open>Invalid or missing markdown_text\<close>.
  More generally no body without a non-empty string under \<^verbatim>\<open>markdown_text\<close> leads to a
  call of the layout engine. The check of \<^verbatim>\<open>create_report_pdf\<close> itself raises on such
  a value before any flowable is made.
\<close>

theorem invalid_markdown_rejected_without_layout:
  "(\<not> truthy data
      \<longrightarrow> download_pdf L data = (JsonError 400 (ascii ''No JSON data received''), []))
   \<and> (kvs \<noteq> []
        \<and> (\<not> truthy (dict_get kvs ''markdown_text'' JNull)
             \<or> \<not> is_str (dict_get kvs ''markdown_text'' JNull))
      \<longrightarrow> download_pdf L (JObj kvs)
            = (JsonError 400 (ascii ''Invalid or missing markdown_text''), []))
   \<and> (\<not> (\<exists>kvs s. data = JObj kvs \<and> dict_get kvs ''markdown_text'' JNull = JStr s \<and> s \<noteq> [])
      \<longrightarrow> snd (download_pdf L data) = [])
   \<and> (\<not> truthy markdown_text \<or> \<not> is_str markdown_text
      \<longrightarrow> (\<exists>e. report_flowables L markdown_text name location language = Inl e))"
proof (intro conjI impI)
  assume "\<not> truthy data"
  then show "download_pdf L data = (JsonError 400 (ascii ''No JSON data received''), [])"
    by (rule download_pdf_no_body)
next
  assume "kvs \<noteq> []
        \<and> (\<not> truthy (dict_get kvs ''markdown_text'' JNull)
             \<or> \<not> is_str (dict_get kvs ''markdown_text'' JNull))"
  then show "download_pdf L (JObj kvs)
      = (JsonError 400 (ascii ''Invalid or missing markdown_text''), [])"
    using download_pdf_rejects by blast
next
  assume a: "\<not> (\<exists>kvs s. data = JObj kvs \<and> dict_get kvs ''markdown_text'' JNull = JStr s \<and> s \<noteq> [])"
  show "snd (download_pdf L data) = []"
  proof (cases "truthy data")
    case False
    then show ?thesis by (simp add: download_pdf_no_body)
  next
    case True
    show ?thesis
    proof (cases "\<exists>kvs. data = JObj kvs")
      case False
      then show ?thesis using True download_pdf_not_object [of data L] by simp
    next
      case obj: True
      then obtain kvs where d: "data = JObj kvs" ..
      with True have ne: "kvs \<noteq> []" by simp
      have "\<not> truthy (dict_get kvs ''markdown_text'' JNull)
          \<or> \<not> is_str (dict_get kvs ''markdown_text'' JNull)"
      proof (rule ccontr)
        assume "\<not> ?thesis"
        then have t: "truthy (dict_get kvs ''markdown_text'' JNull)"
          and s: "is_str (dict_get kvs ''markdown_text'' JNull)" by auto
        from s obtain x where x: "dict_get kvs ''markdown_text'' JNull = JStr x"
          using is_str_iff by blast
        with t have "x \<noteq> []" by simp
        with a d x show False by blast
      qed
      with ne d show ?thesis by (simp add: download_pdf_rejects)
    qed
  qed
next
  assume a: "\<not> truthy markdown_text \<or> \<not> is_str markdown_text"
  show "\<exists>e. report_flowables L markdown_text name location language = Inl e"
  proof (cases "truthy markdown_text")
    case False
    then show ?thesis by (simp add: report_flowables_def)
  next
    case True
    with a have "\<not> is_str markdown_text" by simp
    then show ?thesis using True
      by (cases markdown_text) (simp_all add: report_flowables_def)
  qed
qed

text \<open>
  A null body, an empty string, a number and a missing key are rejected with status
  400; a body that is a list makes no call to the layout engine.
\<close>

theorem invalid_markdown_rejected_without_layout_witness:
  "download_pdf accepting_lib JNull = (JsonError 400 (ascii ''No JSON data received''), [])
   \<and> download_pdf accepting_lib (JObj [(ascii ''markdown_text'', JStr []), (ascii ''name'', JStr (ascii ''A''))])
       = (JsonError 400 (ascii ''Invalid or missing markdown_text''), [])
   \<and> download_pdf accepting_lib (JObj [(ascii ''markdown_text'', JInt 5)])
       = (JsonError 400 (ascii ''Invalid or missing markdown_text''), [])
   \<and> download_pdf accepting_lib (JObj [(ascii ''name'', JStr (ascii ''A''))])
       = (JsonError 400 (ascii ''Invalid or missing markdown_text''), [])
   \<and> snd (download_pdf accepting_lib (JArr [JInt 5])) = []"
proof -
  note T = invalid_markdown_rejected_without_layout
  have a: "download_pdf accepting_lib JNull = (JsonError 400 (ascii ''No JSON data received''), [])"
    using T [where data = JNull and L = accepting_lib] by simp
  have b: "download_pdf accepting_lib
        (JObj [(ascii ''markdown_text'', JStr []), (ascii ''name'', JStr (ascii ''A''))])
       = (JsonError 400 (ascii ''Invalid or missing markdown_text''), [])"
    using T [where kvs = "[(ascii ''markdown_text'', JStr []), (ascii ''name'', JStr (ascii ''A''))]"
        and L = accepting_lib]
    by (simp add: dict_get_def)
  have c: "download_pdf accepting_lib (JObj [(ascii ''markdown_text'', JInt 5)])
       = (JsonError 400 (ascii ''Invalid or missing markdown_text''), [])"
    using T [where kvs = "[(ascii ''markdown_text'', JInt 5)]" and L = accepting_lib]
    by (simp add: dict_get_def)
  have d: "download_pdf accepting_lib (JObj [(ascii ''name'', JStr (ascii ''A''))])
       = (JsonError 400 (ascii ''Invalid or missing markdown_text''), [])"
    using T [where kvs = "[(ascii ''name'', JStr (ascii ''A''))]" and L = accepting_lib]
    by (simp add: dict_get_def ascii_def)
  have e: "snd (download_pdf accepting_lib (JArr [JInt 5])) = []"
    using T [where data = "JArr [JInt 5]" and L = accepting_lib] by simp
  from a b c d e show ?thesis by simp
qed



text \<open>
  Claim C5, as stated, fails. The check before the build does not look for a Disclaimer
  block: it looks for the word \<^verbatim>\<open>Disclaimer\<close> (or its Hindi counterpart) in
  \<^verbatim>\<open>str(flowable)\<close> of every flowable. The input \<^verbatim>\<open>## 3. General Disclaimer\<close> has no
  disclaimer line and its report has no Disclaimer block, yet nothing is appended: the
  last block is the heading.
\<close>

theorem heading_suppresses_default_disclaimer:
  "report_flowables accepting_lib
     (JStr (ascii ''## 3. General Disclaimer''))
     (JStr (ascii ''User'')) (JStr (ascii ''Pune'')) (JStr (ascii ''english''))
   = Inr [Para (Paragraph (ascii ''<b>Professional Land Use Report</b>'') (CustomH1 ''Helvetica'') None),
          Para (Paragraph (ascii ''<b>Prepared for: User</b>'') (CustomH3 ''Helvetica'') None),
          Para (Paragraph (ascii ''<b>Location: Pune</b>'') (CustomH3 ''Helvetica'') None),
          Spacer 1 (1 / 4),
          Para (Paragraph (ascii ''<b>3. General Disclaimer</b>'') (CustomH2 ''Helvetica'') None)]"
  by (simp add: report_eval run_eval accepting_lib_def)

text \<open>
  Claim C5, amended. When the report is assembled, its flowables are the header (title,
  name, location, spacer) followed by the blocks of the lines. The default disclaimer
  is appended exactly when no flowable of the header or of the blocks has
  \<^verbatim>\<open>Disclaimer\<close> or the Hindi marker as a substring of \<^verbatim>\<open>str(flowable)\<close>: then the
  report is these flowables, a spacer and the default disclaimer paragraph, which is
  its last block; otherwise the report is these flowables and nothing is appended. In
  particular nothing is appended whenever some paragraph of the header or the blocks,
  of any kind, has one of the two words in its text and \<^verbatim>\<open>str\<close> shows that text. The
  default text is the Hindi one exactly when the language is \<^verbatim>\<open>hindi\<close>, and the English
  one otherwise.
\<close>

theorem default_disclaimer_appended_iff:
  assumes "report_flowables L (JStr text) name location language = Inr out"
  shows "\<exists>base header blocks.
           base_font L language = Inr base
           \<and> pdf_header L base name location language = Inr header
           \<and> (\<exists>st. process_lines L base
                      \<lparr>flowables = header, in_table = False, current_table_data = []\<rparr>
                      (py_split 10 text) = Inr st
                    \<and> flowables st = header @ blocks)
           \<and> (mentions_disclaimer L (header @ blocks) \<longleftrightarrow>
                (\<exists>f\<in>set (header @ blocks). \<exists>a c.
                    str_of L f = a @ ascii ''Disclaimer'' @ c
                    \<or> str_of L f = a @ hindi_marker @ c))
           \<and> (if mentions_disclaimer L (header @ blocks) then out = header @ blocks
                else out = header @ blocks
                       @ [Spacer 1 (1 / 5),
                          Para (Paragraph (disclaimer_text language) (CustomDisclaimer base) None)]
                     \<and> last out
                       = Para (Paragraph (disclaimer_text language) (CustomDisclaimer base) None))
           \<and> (\<forall>t sty bt.
                  Para (Paragraph t sty bt) \<in> set (header @ blocks)
                  \<and> (py_contains (ascii ''Disclaimer'') t \<or> py_contains hindi_marker t)
                  \<and> (\<exists>a c. str_of L (Para (Paragraph t sty bt)) = a @ t @ c)
                  \<longrightarrow> out = header @ blocks)
           \<and> disclaimer_text language
               = (if language = JStr (ascii ''hindi'')
                  then ascii ''<i>'' @ hindi_disclaimer @ ascii ''</i>''
                  else ascii ''<i>'' @ english_disclaimer @ ascii ''</i>'')"
proof -
  from report_flowables_parts [OF assms] obtain base header st where
    b: "base_font L language = Inr base"
    and h: "pdf_header L base name location language = Inr header"
    and p: "process_lines L base
              \<lparr>flowables = header, in_table = False, current_table_data = []\<rparr>
              (py_split 10 text) = Inr st"
    and a: "add_disclaimer L base language (flowables st) = Inr out"
    by blast
  from process_lines_extends [OF p] obtain blocks where f: "flowables st = header @ blocks"
    by auto
  have m: "mentions_disclaimer L (header @ blocks) \<longleftrightarrow>
            (\<exists>f\<in>set (header @ blocks). \<exists>a c.
                str_of L f = a @ ascii ''Disclaimer'' @ c
                \<or> str_of L f = a @ hindi_marker @ c)"
    unfolding mentions_disclaimer_iff py_contains_iff by blast
  from add_disclaimer_cases [OF a] f
  have c: "if mentions_disclaimer L (header @ blocks) then out = header @ blocks
           else out = header @ blocks
                  @ [Spacer 1 (1 / 5),
                     Para (Paragraph (disclaimer_text language) (CustomDisclaimer base) None)]
                \<and> last out
                  = Para (Paragraph (disclaimer_text language) (CustomDisclaimer base) None)"
    by (auto split: if_splits)
  have s: "\<forall>t sty bt.
             Para (Paragraph t sty bt) \<in> set (header @ blocks)
             \<and> (py_contains (ascii ''Disclaimer'') t \<or> py_contains hindi_marker t)
             \<and> (\<exists>a c. str_of L (Para (Paragraph t sty bt)) = a @ t @ c)
             \<longrightarrow> out = header @ blocks"
  proof (intro allI impI)
    fix t sty bt
    assume x: "Para (Paragraph t sty bt) \<in> set (header @ blocks)
             \<and> (py_contains (ascii ''Disclaimer'') t \<or> py_contains hindi_marker t)
             \<and> (\<exists>a c. str_of L (Para (Paragraph t sty bt)) = a @ t @ c)"
    then have "mentions_disclaimer L (header @ blocks)"
      using shown_text_mentions [of t sty bt "header @ blocks" L] by blast
    with c show "out = header @ blocks" by simp
  qed
  have d: "disclaimer_text language
             = (if language = JStr (ascii ''hindi'')
                then ascii ''<i>'' @ hindi_disclaimer @ ascii ''</i>''
                else ascii ''<i>'' @ english_disclaimer @ ascii ''</i>'')"
    by (simp add: disclaimer_text_def is_hindi_def)
  from b h p f m c s d show ?thesis by blast
qed

text \<open>
  For the text \<^verbatim>\<open>Hello\<close> no flowable mentions the word and the default disclaimer is the
  last block; for a disclaimer line the flowables mention it and nothing is appended.
\<close>

theorem default_disclaimer_appended_iff_witness:
  "report_flowables accepting_lib
     (JStr (ascii ''Hello''))
     (JStr (ascii ''User'')) (JStr (ascii ''Pune'')) (JStr (ascii ''english''))
   = Inr [Para (Paragraph (ascii ''<b>Professional Land Use Report</b>'') (CustomH1 ''Helvetica'') None),
          Para (Paragraph (ascii ''<b>Prepared for: User</b>'') (CustomH3 ''Helvetica'') None),
          Para (Paragraph (ascii ''<b>Location: Pune</b>'') (CustomH3 ''Helvetica'') None),
          Spacer 1 (1 / 4),
          Para (Paragraph (ascii ''Hello'') (CustomBody ''Helvetica'') None),
          Spacer 1 (1 / 5),
          Para (Paragraph (ascii ''<i>'' @ english_disclaimer @ ascii ''</i>'')
                  (CustomDisclaimer ''Helvetica'') None)]
   \<and> \<not> mentions_disclaimer accepting_lib
       [Para (Paragraph (ascii ''<b>Professional Land Use Report</b>'') (CustomH1 ''Helvetica'') None),
        Para (Paragraph (ascii ''<b>Prepared for: User</b>'') (CustomH3 ''Helvetica'') None),
        Para (Paragraph (ascii ''<b>Location: Pune</b>'') (CustomH3 ''Helvetica'') None),
        Spacer 1 (1 / 4),
        Para (Paragraph (ascii ''Hello'') (CustomBody ''Helvetica'') None)]
   \<and> report_flowables accepting_lib
     (JStr (ascii ''Disclaimer: ask a lawyer''))
     (JStr (ascii ''User'')) (JStr (ascii ''Pune'')) (JStr (ascii ''english''))
   = Inr [Para (Paragraph (ascii ''<b>Professional Land Use Report</b>'') (CustomH1 ''Helvetica'') None),
          Para (Paragraph (ascii ''<b>Prepared for: User</b>'') (CustomH3 ''Helvetica'') None),
          Para (Paragraph (ascii ''<b>Location: Pune</b>'') (CustomH3 ''Helvetica'') None),
          Spacer 1 (1 / 4),
          Para (Paragraph (ascii ''<i>Disclaimer: ask a lawyer</i>'')
                  (CustomDisclaimer ''Helvetica'') None)]
   \<and> mentions_disclaimer accepting_lib
       [Para (Paragraph (ascii ''<b>Professional Land Use Report</b>'') (CustomH1 ''Helvetica'') None),
        Para (Paragraph (ascii ''<b>Prepared for: User</b>'') (CustomH3 ''Helvetica'') None),
        Para (Paragraph (ascii ''<b>Location: Pune</b>'') (CustomH3 ''Helvetica'') None),
        Spacer 1 (1 / 4),
        Para (Paragraph (ascii ''<i>Disclaimer: ask a lawyer</i>'')
                (CustomDisclaimer ''Helvetica'') None)]"
proof -
  let ?n = "JStr (ascii ''User'')" and ?l = "JStr (ascii ''Pune'')"
    and ?lang = "JStr (ascii ''english'')"
  let ?H = "[Para (Paragraph (ascii ''<b>Professional Land Use Report</b>'') (CustomH1 ''Helvetica'') None),
             Para (Paragraph (ascii ''<b>Prepared for: User</b>'') (CustomH3 ''Helvetica'') None),
             Para (Paragraph (ascii ''<b>Location: Pune</b>'') (CustomH3 ''Helvetica'') None),
             Spacer 1 (1 / 4)]"
  let ?D = "Para (Paragraph (ascii ''<i>'' @ english_disclaimer @ ascii ''</i>'')
                    (CustomDisclaimer ''Helvetica'') None)"
  have bf: "base_font accepting_lib ?lang = Inr ''Helvetica''"
    by (simp add: base_font_def is_hindi_def ascii_def)
  have hd: "pdf_header accepting_lib ''Helvetica'' ?n ?l ?lang = Inr ?H"
    by (simp add: pdf_header_def is_hindi_def fstr_def new_Paragraph_def accepting_lib_def
        ascii_def)
  let ?B = "Para (Paragraph (ascii ''Hello'') (CustomBody ''Helvetica'') None)"
  have rf: "report_flowables accepting_lib (JStr (ascii ''Hello'')) ?n ?l ?lang
      = Inr (?H @ [?B] @ [Spacer 1 (1 / 5), ?D])"
    by (simp add: report_eval run_eval accepting_lib_def)
  have pl: "process_lines accepting_lib ''Helvetica''
      \<lparr>flowables = ?H, in_table = False, current_table_data = []\<rparr>
      (py_split 10 (ascii ''Hello''))
      = Inr \<lparr>flowables = ?H @ [?B], in_table = False, current_table_data = []\<rparr>"
    by (simp add: run_eval style_eval accepting_lib_def)
  from default_disclaimer_appended_iff [OF rf] bf hd pl
  have "if mentions_disclaimer accepting_lib (?H @ [?B]) then ?H @ [?B] @ [Spacer 1 (1 / 5), ?D] = ?H @ [?B]
        else True"
    by (auto split: if_splits)
  then have first: "\<not> mentions_disclaimer accepting_lib (?H @ [?B])"
    by (auto split: if_splits)
  let ?C = "Para (Paragraph (ascii ''<i>Disclaimer: ask a lawyer</i>'')
                    (CustomDisclaimer ''Helvetica'') None)"
  have rf': "report_flowables accepting_lib (JStr (ascii ''Disclaimer: ask a lawyer'')) ?n ?l ?lang
      = Inr (?H @ [?C])"
    by (simp add: report_eval run_eval accepting_lib_def)
  have pl': "process_lines accepting_lib ''Helvetica''
      \<lparr>flowables = ?H, in_table = False, current_table_data = []\<rparr>
      (py_split 10 (ascii ''Disclaimer: ask a lawyer''))
      = Inr \<lparr>flowables = ?H @ [?C], in_table = False, current_table_data = []\<rparr>"
    by (simp add: run_eval style_eval accepting_lib_def)
  from default_disclaimer_appended_iff [OF rf'] bf hd pl'
  have "if mentions_disclaimer accepting_lib (?H @ [?C]) then True
        else ?H @ [?C] = ?H @ [?C] @ [Spacer 1 (1 / 5),
               Para (Paragraph (disclaimer_text ?lang) (CustomDisclaimer ''Helvetica'') None)]"
    by (auto split: if_splits)
  then have second: "mentions_disclaimer accepting_lib (?H @ [?C])"
    by (auto split: if_splits)
  from rf first rf' second show ?thesis by simp
qed

end
